theory Spec2Isabelle
  imports Main "HOL-Library.AList"
begin

section \<open>Python values, files and effects\<close>

text \<open>
  The three scripts \<^verbatim>\<open>manage_security.py\<close>, \<^verbatim>\<open>manage_dist.py\<close> and
  \<^verbatim>\<open>manage_package.py\<close> read and write files, print messages, call the
  \<^verbatim>\<open>hashlib\<close>, \<^verbatim>\<open>cryptography\<close>, \<^verbatim>\<open>json\<close> and \<^verbatim>\<open>base64\<close> libraries and start
  network and process calls. The model makes each of these explicit:
  \<^item> the file system is a map from path to node, passed in and, where the code writes,
    returned;
  \<^item> every observable step (a line printed, a file opened for reading, a call of the
    library's sign or verify operation, a network or process call) is appended to a list
    of events, in program order;
  \<^item> every exception is a value \<open>Inl e\<close>; \<^verbatim>\<open>try ... except Exception\<close> is \<open>try_except\<close>;
  \<^item> the libraries, which are not code of the repository, are the fields of the record
    \<open>env\<close>.
  A \<open>char\<close> is one byte, and \<open>string\<close> holds Python \<^verbatim>\<open>bytes\<close>: the content of a file,
  a digest, a signature. The strings that the scripts build themselves (paths, names of
  algorithms, the hex digits of \<^verbatim>\<open>hexdigest()\<close>, values of the configuration) are held as
  \<open>string\<close> too, in the bytes they are written with. A \<^verbatim>\<open>str\<close> that comes out of a file
  opened in text mode is a \<open>ustr\<close>, the list of its code points: the codec (\<open>decode\<close> of
  the environment) stands between the bytes and the text, it can raise, and
  \<^verbatim>\<open>str.strip\<close> and \<^verbatim>\<open>str.split\<close> cut such a text at Unicode white space. \<open>str_of\<close> gives
  the code points of a string of the first kind, one for each byte.
\<close>

type_synonym path = string

type_synonym ustr = "nat list"

definition str_of :: "string \<Rightarrow> ustr" where
  "str_of s = map of_char s"

datatype node =
    File string   \<comment> \<open>a regular file and its content\<close>
  | Dir           \<comment> \<open>a directory\<close>
  | Denied        \<comment> \<open>a regular file that the process may not open\<close>

type_synonym fs = "path \<Rightarrow> node option"

datatype exn =
    FileNotFoundError path
  | IsADirectoryError path
  | PermissionError path
  | JSONDecodeError
  | KeyError string
  | TypeError
  | IndexError
  | ValueError
  | Base64Error
  | HTTPError
  | CalledProcessError
  | UnboundLocalError
  | AttributeError
  | UnicodeDecodeError

datatype hash_alg = SHA256 | SHA512

datatype salt_len = Salt nat | MAX_LENGTH

record pss =
  mgf1 :: hash_alg
  salt_length :: salt_len

datatype channel = Github | Sourceforge | Itch

text \<open>
  The lines the scripts print. Each constructor stands for one format string of the
  source (accents dropped here):
  \<^item> \<open>ErrCalculateHashes e\<close>: \<^verbatim>\<open>Erro ao calcular hashes: {e}\<close>;
    \<open>ErrSignFile e\<close>: \<^verbatim>\<open>Erro ao assinar arquivo: {e}\<close>;
    \<open>ErrVerifyFile e\<close>: \<^verbatim>\<open>Erro ao verificar arquivo: {e}\<close>;
    \<open>ErrSaveHashes e\<close>: \<^verbatim>\<open>Erro ao salvar hashes: {e}\<close>;
    \<open>ErrSaveSignature e\<close>: \<^verbatim>\<open>Erro ao salvar assinatura: {e}\<close>;
  \<^item> \<open>VerifyingFile p\<close>: \<^verbatim>\<open>Verificando arquivo: {path}\<close>;
    \<open>HashNotFound a\<close>: \<^verbatim>\<open>Hash {algorithm} nao encontrado.\<close>;
    \<open>HashInvalid a\<close>: \<^verbatim>\<open>Hash {algorithm} invalido.\<close>;
    \<open>HashFileNotFound\<close>: \<^verbatim>\<open>Arquivo de hashes nao encontrado.\<close>;
    \<open>SignatureInvalid\<close>: \<^verbatim>\<open>Assinatura invalida.\<close>;
    \<open>SignatureFileNotFound\<close>: \<^verbatim>\<open>Arquivo de assinatura nao encontrado.\<close>;
    \<open>FileVerified\<close>: \<^verbatim>\<open>Arquivo verificado com sucesso.\<close>;
    \<open>HashesSaved p\<close>: \<^verbatim>\<open>Hashes salvos em: {hash_path}\<close>;
    \<open>SignatureSaved p\<close>: \<^verbatim>\<open>Assinatura salva em: {sig_path}\<close>;
    \<open>FileNotFound\<close>: \<^verbatim>\<open>Arquivo nao encontrado.\<close>;
    \<open>InvalidPlatform p\<close>: \<^verbatim>\<open>Erro: plataforma invalida: {platform}\<close>;
  \<^item> \<open>CollectingPackages\<close>: \<^verbatim>\<open>Coletando pacotes...\<close>;
    \<open>VerifyingPackages\<close>: \<^verbatim>\<open>Verificando pacotes...\<close>;
    \<open>Verifying b\<close>: \<^verbatim>\<open>Verificando {os.path.basename(path)}...\<close>;
    \<open>SignatureNotFound\<close>: \<^verbatim>\<open>Assinatura nao encontrada.\<close>;
    \<open>AllPackagesVerified\<close>: \<^verbatim>\<open>Todos os pacotes verificados com sucesso.\<close>;
    \<open>ErrVerifyPackages e\<close>: \<^verbatim>\<open>Erro ao verificar pacotes: {e}\<close>;
  \<^item> \<open>Publishing c\<close>: \<^verbatim>\<open>Publicando no GitHub...\<close> and its siblings;
    \<open>TokenNotFound c\<close>: \<^verbatim>\<open>Token do GitHub nao encontrado.\<close> and its siblings;
    \<open>Sending b\<close>: \<^verbatim>\<open>Enviando {os.path.basename(path)}...\<close>;
    \<open>Published c\<close>: \<^verbatim>\<open>Pacotes publicados com sucesso no GitHub.\<close> and its siblings;
    \<open>ErrPublish c e\<close>: \<^verbatim>\<open>Erro ao publicar no GitHub: {e}\<close> and its siblings;
  \<^item> \<open>VerifyingPackage p\<close>: \<^verbatim>\<open>Verificando pacote {package}...\<close>;
    \<open>PackageVerified\<close>: \<^verbatim>\<open>Pacote verificado com sucesso.\<close>;
    \<open>ErrVerifyPackage e\<close>: \<^verbatim>\<open>Erro ao verificar pacote: {e}\<close>.
\<close>

datatype msg =
    ErrCalculateHashes exn
  | ErrSignFile exn
  | ErrVerifyFile exn
  | ErrSaveHashes exn
  | ErrSaveSignature exn
  | VerifyingFile path
  | HashNotFound string
  | HashInvalid string
  | HashFileNotFound
  | SignatureInvalid
  | SignatureFileNotFound
  | FileVerified
  | HashesSaved path
  | SignatureSaved path
  | FileNotFound
  | InvalidPlatform string
  | CollectingPackages
  | VerifyingPackages
  | Verifying string
  | SignatureNotFound
  | AllPackagesVerified
  | ErrVerifyPackages exn
  | Publishing channel
  | TokenNotFound channel
  | Sending string
  | Published channel
  | ErrPublish channel exn
  | VerifyingPackage path
  | PackageVerified
  | ErrVerifyPackage exn

datatype event =
    Print msg
    \<comment> \<open>\<^verbatim>\<open>print(...)\<close>, to stdout or stderr\<close>
  | Open path
    \<comment> \<open>\<^verbatim>\<open>open(path)\<close> for reading, whether it succeeds or raises\<close>
  | Sign string pss hash_alg
    \<comment> \<open>\<^verbatim>\<open>private_key.sign(data, padding, algorithm)\<close>\<close>
  | Verify string string pss hash_alg
    \<comment> \<open>\<^verbatim>\<open>public_key.verify(signature, data, padding, algorithm)\<close>\<close>
  | Call channel "ustr list"
    \<comment> \<open>a \<^verbatim>\<open>requests.post\<close> or \<^verbatim>\<open>subprocess.run\<close> of a publish function\<close>

datatype json =
    JObj "(string \<times> json) list"   \<comment> \<open>a dict, its keys distinct\<close>
  | JArr "json list"
  | JStr string
  | JOther                         \<comment> \<open>a number, a boolean or null\<close>

text \<open>
  The libraries and the process environment. \<open>None\<close> is the library raising.
  \<open>hexdigest env a c\<close> is \<^verbatim>\<open>hashlib.new(a)\<close> fed the content \<open>c\<close>, then \<^verbatim>\<open>hexdigest()\<close>;
  \<open>sha512_digest env c\<close> is \<^verbatim>\<open>hashes.Hash(hashes.SHA512())\<close> fed \<open>c\<close>, then \<^verbatim>\<open>finalize()\<close>.
  \<open>rsa_sign\<close> fixes the random salt the library draws for each call.
  \<open>json_load env b\<close> is \<^verbatim>\<open>json.load(f)\<close> on a file of content \<open>b\<close> opened in text mode,
  \<open>None\<close> when the decoding or the parsing raises. \<open>decode env b\<close> is \<^verbatim>\<open>f.read()\<close> on a
  file of content \<open>b\<close> opened in text mode, in the encoding of the locale; \<open>encode env t\<close>
  is \<^verbatim>\<open>t.encode()\<close>. \<open>b64decode env t\<close> is \<^verbatim>\<open>base64.b64decode(t)\<close> of a \<^verbatim>\<open>str\<close>.
\<close>

record ('sk, 'pk) env =
  hexdigest :: "string \<Rightarrow> string \<Rightarrow> string"
  sha512_digest :: "string \<Rightarrow> string"
  load_pem_private_key :: "string \<Rightarrow> 'sk option"
  load_pem_public_key :: "string \<Rightarrow> 'pk option"
  rsa_sign :: "'sk \<Rightarrow> string \<Rightarrow> pss \<Rightarrow> hash_alg \<Rightarrow> string option"
  rsa_verify :: "'pk \<Rightarrow> string \<Rightarrow> string \<Rightarrow> pss \<Rightarrow> hash_alg \<Rightarrow> bool"
  json_dump :: "(string \<times> string) list \<Rightarrow> string"
  json_load :: "string \<Rightarrow> json option"
  b64encode :: "string \<Rightarrow> string"
  b64decode :: "ustr \<Rightarrow> string option"
  decode :: "string \<Rightarrow> ustr option"
  encode :: "ustr \<Rightarrow> string option"
  environ :: "string \<Rightarrow> string option"
  glob :: "string \<Rightarrow> path list"
  call_ok :: "channel \<Rightarrow> ustr list \<Rightarrow> bool"
  upload_url :: "ustr option"

subsection \<open>Exceptions and the event list\<close>

type_synonym 'a out = "(exn + 'a) \<times> event list"

definition ok :: "'a \<Rightarrow> 'a out" where
  "ok x = (Inr x, [])"

definition throw :: "exn \<Rightarrow> 'a out" where
  "throw e = (Inl e, [])"

definition emit :: "event \<Rightarrow> unit out" where
  "emit ev = (Inr (), [ev])"

definition and_then :: "'a out \<Rightarrow> ('a \<Rightarrow> 'b out) \<Rightarrow> 'b out" where
  "and_then m f =
     (case m of
        (Inl e, l) \<Rightarrow> (Inl e, l)
      | (Inr x, l) \<Rightarrow> (case f x of (r, l') \<Rightarrow> (r, l @ l')))"

definition print_then :: "msg \<Rightarrow> 'a out \<Rightarrow> 'a out" where
  "print_then m k = and_then (emit (Print m)) (\<lambda>_. k)"

definition from_option :: "exn \<Rightarrow> 'a option \<Rightarrow> 'a out" where
  "from_option e x = (case x of None \<Rightarrow> throw e | Some v \<Rightarrow> ok v)"

definition try_except :: "'a out \<Rightarrow> (exn \<Rightarrow> msg) \<Rightarrow> 'a \<Rightarrow> 'a \<times> event list" where
  \<comment> \<open>\<^verbatim>\<open>try: body  except Exception as e: print(err e); return dflt\<close>\<close>
  "try_except body err dflt =
     (case body of
        (Inr x, l) \<Rightarrow> (x, l)
      | (Inl e, l) \<Rightarrow> (dflt, l @ [Print (err e)]))"

subsection \<open>Files and paths\<close>

definition read_file :: "fs \<Rightarrow> path \<Rightarrow> string out" where
  \<comment> \<open>\<^verbatim>\<open>with open(p) as f: f.read()\<close>, also when read in chunks of 8192 bytes\<close>
  "read_file fs p =
     and_then (emit (Open p)) (\<lambda>_.
       case fs p of
         None \<Rightarrow> throw (FileNotFoundError p)
       | Some Dir \<Rightarrow> throw (IsADirectoryError p)
       | Some Denied \<Rightarrow> throw (PermissionError p)
       | Some (File c) \<Rightarrow> ok c)"

definition read_text :: "('sk, 'pk) env \<Rightarrow> fs \<Rightarrow> path \<Rightarrow> ustr out" where
  \<comment> \<open>\<^verbatim>\<open>with open(p, 'r') as f: f.read()\<close>: the bytes are decoded, which can raise\<close>
  "read_text env fs p =
     and_then (read_file fs p) (\<lambda>b. from_option UnicodeDecodeError (decode env b))"

definition exists :: "fs \<Rightarrow> path \<Rightarrow> bool" where
  "exists fs p = (fs p \<noteq> None)"

definition isfile :: "fs \<Rightarrow> path \<Rightarrow> bool" where
  "isfile fs p = (case fs p of Some (File c) \<Rightarrow> True | Some Denied \<Rightarrow> True | _ \<Rightarrow> False)"

definition readable :: "fs \<Rightarrow> path \<Rightarrow> bool" where
  \<comment> \<open>\<^verbatim>\<open>open(p)\<close> for reading succeeds\<close>
  "readable fs p = (case fs p of Some (File c) \<Rightarrow> True | _ \<Rightarrow> False)"

definition basename :: "path \<Rightarrow> string" where
  "basename p = rev (takeWhile (\<lambda>c. c \<noteq> CHR ''/'') (rev p))"

definition dirname :: "path \<Rightarrow> string" where
  "dirname p =
     (let head = rev (dropWhile (\<lambda>c. c \<noteq> CHR ''/'') (rev p))
      in if head \<noteq> [] \<and> \<not> list_all (\<lambda>c. c = CHR ''/'') head
         then rev (dropWhile (\<lambda>c. c = CHR ''/'') (rev head))
         else head)"

definition join :: "path \<Rightarrow> path \<Rightarrow> path" where
  \<comment> \<open>\<^verbatim>\<open>os.path.join(a, b)\<close> on POSIX\<close>
  "join a b =
     (if b \<noteq> [] \<and> hd b = CHR ''/'' then b
      else if a = [] \<or> last a = CHR ''/'' then a @ b
      else a @ ''/'' @ b)"

definition write_file :: "fs \<Rightarrow> path \<Rightarrow> string \<Rightarrow> exn + fs" where
  \<comment> \<open>\<^verbatim>\<open>with open(p, 'w') as f: f.write(c)\<close>: the file is created or overwritten; it
      raises when \<open>p\<close> cannot be opened for writing or its directory does not exist\<close>
  "write_file fs p c =
     (case fs p of
        Some Dir \<Rightarrow> Inl (IsADirectoryError p)
      | Some Denied \<Rightarrow> Inl (PermissionError p)
      | _ \<Rightarrow>
         if dirname p = [] \<or> fs (dirname p) = Some Dir then Inr (fs(p \<mapsto> File c))
         else Inl (FileNotFoundError p))"

definition endswith :: "string \<Rightarrow> string \<Rightarrow> bool" where
  \<comment> \<open>\<^verbatim>\<open>s.endswith(ext)\<close>\<close>
  "endswith s ext =
     (length ext \<le> length s \<and> drop (length s - length ext) s = ext)"

primrec contains_str :: "string \<Rightarrow> string \<Rightarrow> bool" where
  \<comment> \<open>\<^verbatim>\<open>a in s\<close> for two strings: \<open>a\<close> occurs in \<open>s\<close>\<close>
  "contains_str a [] = (a = [])"
| "contains_str a (c # cs) = (take (length a) (c # cs) = a \<or> contains_str a cs)"

subsection \<open>Values loaded from JSON\<close>

definition py_in :: "string \<Rightarrow> json \<Rightarrow> bool out" where
  \<comment> \<open>\<^verbatim>\<open>a in v\<close>\<close>
  "py_in a v =
     (case v of
        JObj kv \<Rightarrow> ok (a \<in> set (map fst kv))
      | JArr xs \<Rightarrow> ok (JStr a \<in> set xs)
      | JStr s \<Rightarrow> ok (contains_str a s)
      | JOther \<Rightarrow> throw TypeError)"

definition py_getitem :: "json \<Rightarrow> string \<Rightarrow> json out" where
  \<comment> \<open>\<^verbatim>\<open>v[a]\<close> with a string \<open>a\<close>\<close>
  "py_getitem v a =
     (case v of
        JObj kv \<Rightarrow> from_option (KeyError a) (map_of kv a)
      | _ \<Rightarrow> throw TypeError)"

definition dict_getitem :: "(string \<times> string) list \<Rightarrow> string \<Rightarrow> string out" where
  "dict_getitem d a = from_option (KeyError a) (map_of d a)"

section \<open>manage\_security.py\<close>

subsection \<open>SECURITY\_CONFIG\<close>

definition keys_dir :: path where "keys_dir = ''security/keys''"
definition hashes_dir :: path where "hashes_dir = ''security/hashes''"
definition signatures_dir :: path where "signatures_dir = ''security/signatures''"
definition rsa_public :: string where "rsa_public = ''rsa_public.pem''"
definition rsa_private :: string where "rsa_private = ''rsa_private.pem''"

definition algorithms :: "string list" where
  "algorithms = [''sha256'', ''sha512'']"

definition extensions :: "string list" where
  "extensions = [''.exe'', ''.dll'', ''.so'', ''.dylib'', ''.rom'']"

definition cfg_salt_length :: nat where "cfg_salt_length = 64"
definition check_hashes :: bool where "check_hashes = True"
definition check_signatures :: bool where "check_signatures = True"

definition security_pss :: pss where
  \<comment> \<open>\<^verbatim>\<open>padding.PSS(mgf=padding.MGF1(hashes.SHA512()), salt_length=64)\<close>\<close>
  "security_pss = \<lparr>mgf1 = SHA512, salt_length = Salt cfg_salt_length\<rparr>"

subsection \<open>calculate\_hashes\<close>

fun hash_each :: "('sk, 'pk) env \<Rightarrow> fs \<Rightarrow> path \<Rightarrow> string list \<Rightarrow>
    (string \<times> string) list \<Rightarrow> (string \<times> string) list out" where
  "hash_each env fs p [] hashes = ok hashes"
| "hash_each env fs p (a # as) hashes =
     and_then (read_file fs p) (\<lambda>c.
       hash_each env fs p as (AList.update a (hexdigest env a c) hashes))"

definition calculate_hashes :: "('sk, 'pk) env \<Rightarrow> fs \<Rightarrow> path \<Rightarrow>
    (string \<times> string) list \<times> event list" where
  "calculate_hashes env fs p =
     try_except (hash_each env fs p algorithms []) ErrCalculateHashes []"

subsection \<open>sign\_file\<close>

definition sign_file :: "('sk, 'pk) env \<Rightarrow> fs \<Rightarrow> path \<Rightarrow> string option \<times> event list" where
  "sign_file env fs p =
     try_except
       (and_then (read_file fs (join keys_dir rsa_private)) (\<lambda>pem.
        and_then (from_option ValueError (load_pem_private_key env pem)) (\<lambda>private_key.
        and_then (read_file fs p) (\<lambda>c.
        let digest = sha512_digest env c in
        and_then (emit (Sign digest security_pss SHA512)) (\<lambda>_.
        and_then (from_option ValueError (rsa_sign env private_key digest security_pss SHA512))
          (\<lambda>signature. ok (Some signature)))))))
       ErrSignFile None"

subsection \<open>verify\_file\<close>

fun compare_hashes :: "json \<Rightarrow> (string \<times> string) list \<Rightarrow> string list \<Rightarrow> bool option out" where
  \<comment> \<open>the loop over the algorithms; \<open>Some b\<close> is \<^verbatim>\<open>return b\<close>, \<open>None\<close> is the loop's end\<close>
  "compare_hashes saved_hashes current_hashes [] = ok None"
| "compare_hashes saved_hashes current_hashes (a # as) =
     and_then (py_in a saved_hashes) (\<lambda>found.
       if \<not> found then print_then (HashNotFound a) (ok (Some False))
       else
         and_then (py_getitem saved_hashes a) (\<lambda>saved.
         and_then (dict_getitem current_hashes a) (\<lambda>current.
           if saved \<noteq> JStr current then print_then (HashInvalid a) (ok (Some False))
           else compare_hashes saved_hashes current_hashes as)))"

definition verify_hashes :: "('sk, 'pk) env \<Rightarrow> fs \<Rightarrow> path \<Rightarrow> bool option out" where
  "verify_hashes env fs p =
     (let hash_path = join hashes_dir (basename p @ ''.json'') in
      if exists fs hash_path then
        and_then (read_file fs hash_path) (\<lambda>text.
        and_then (from_option JSONDecodeError (json_load env text)) (\<lambda>saved_hashes.
          case calculate_hashes env fs p of (current_hashes, l) \<Rightarrow>
            and_then (Inr (), l) (\<lambda>_.
              compare_hashes saved_hashes current_hashes algorithms)))
      else print_then HashFileNotFound (ok (Some False)))"

definition verify_signature :: "('sk, 'pk) env \<Rightarrow> fs \<Rightarrow> path \<Rightarrow> bool option out" where
  "verify_signature env fs p =
     and_then (read_file fs (join keys_dir rsa_public)) (\<lambda>pem.
     and_then (from_option ValueError (load_pem_public_key env pem)) (\<lambda>public_key.
       let sig_path = join signatures_dir (basename p @ ''.sig'') in
       if exists fs sig_path then
         and_then (read_file fs sig_path) (\<lambda>signature.
         and_then (read_file fs p) (\<lambda>c.
           let digest = sha512_digest env c in
           and_then (emit (Verify signature digest security_pss SHA512)) (\<lambda>_.
             if rsa_verify env public_key signature digest security_pss SHA512 then ok None
             else print_then SignatureInvalid (ok (Some False)))))
       else print_then SignatureFileNotFound (ok (Some False))))"

definition verify_file :: "('sk, 'pk) env \<Rightarrow> fs \<Rightarrow> path \<Rightarrow> bool \<times> event list" where
  "verify_file env fs p =
     try_except
       (if \<not> list_ex (\<lambda>ext. endswith p ext) extensions then ok True
        else
          print_then (VerifyingFile p)
            (and_then (if check_hashes then verify_hashes env fs p else ok None) (\<lambda>r.
               case r of
                 Some b \<Rightarrow> ok b
               | None \<Rightarrow>
                   and_then (if check_signatures then verify_signature env fs p else ok None)
                     (\<lambda>r. case r of
                        Some b \<Rightarrow> ok b
                      | None \<Rightarrow> print_then FileVerified (ok True)))))
       ErrVerifyFile False"

subsection \<open>main: the commands hash, sign and verify\<close>

datatype command = CmdHash | CmdSign | CmdVerify

definition main_security :: "('sk, 'pk) env \<Rightarrow> fs \<Rightarrow> command \<Rightarrow> path \<Rightarrow>
    int \<times> event list \<times> fs" where
  \<comment> \<open>\<^verbatim>\<open>main\<close> with \<^verbatim>\<open>sys.argv = [script, command, path]\<close>; the result is the exit code\<close>
  "main_security env fs command p =
     (if \<not> isfile fs p then (1, [Print FileNotFound], fs)
      else case command of
        CmdHash \<Rightarrow>
          (case calculate_hashes env fs p of (hashes, l) \<Rightarrow>
             if hashes = [] then (1, l, fs)
             else
               let hash_path = join hashes_dir (basename p @ ''.json'') in
               (case write_file fs hash_path (json_dump env hashes) of
                  Inr fs' \<Rightarrow> (0, l @ [Print (HashesSaved hash_path)], fs')
                | Inl e \<Rightarrow> (1, l @ [Print (ErrSaveHashes e)], fs)))
      | CmdSign \<Rightarrow>
          (case sign_file env fs p of (signature, l) \<Rightarrow>
             if signature = None \<or> signature = Some [] then (1, l, fs)
             else
               let sig_path = join signatures_dir (basename p @ ''.sig'') in
               (case write_file fs sig_path (the signature) of
                  Inr fs' \<Rightarrow> (0, l @ [Print (SignatureSaved sig_path)], fs')
                | Inl e \<Rightarrow> (1, l @ [Print (ErrSaveSignature e)], fs)))
      | CmdVerify \<Rightarrow>
          (case verify_file env fs p of (b, l) \<Rightarrow> ((if b then 0 else 1), l, fs)))"

section \<open>manage\_dist.py\<close>

subsection \<open>DIST\_CONFIG\<close>

definition dist_packages :: "(string \<times> (string \<times> string \<times> string) list) list" where
  \<comment> \<open>platform, then format name, glob pattern and MIME type, in the dict's order\<close>
  "dist_packages =
     [(''windows'', [(''installer'', ''*.exe'', ''application/x-msdownload''),
                     (''portable'', ''*.zip'', ''application/zip'')]),
      (''linux'', [(''deb'', ''*.deb'', ''application/x-debian-package''),
                   (''rpm'', ''*.rpm'', ''application/x-rpm''),
                   (''appimage'', ''*.AppImage'', ''application/x-appimage'')]),
      (''macos'', [(''dmg'', ''*.dmg'', ''application/x-apple-diskimage''),
                   (''pkg'', ''*.pkg'', ''application/x-newton-compatible-pkg'')])]"

definition dist_enabled :: bool where "dist_enabled = True"
definition dist_algorithms :: "string list" where "dist_algorithms = [''sha256'', ''sha512'']"
definition dist_signature :: bool where "dist_signature = True"

definition itch_channel :: "(string \<times> string) list" where
  "itch_channel = [(''windows'', ''windows''), (''linux'', ''linux''), (''macos'', ''macos'')]"

definition dist_pss :: pss where
  \<comment> \<open>\<^verbatim>\<open>padding.PSS(mgf=padding.MGF1(hashes.SHA256()), salt_length=padding.PSS.MAX_LENGTH)\<close>\<close>
  "dist_pss = \<lparr>mgf1 = SHA256, salt_length = MAX_LENGTH\<rparr>"

subsection \<open>collect\_packages\<close>

definition collect_packages :: "('sk, 'pk) env \<Rightarrow> fs \<Rightarrow>
    (string \<times> path list) list \<times> event list" where
  \<comment> \<open>\<open>glob env pat\<close> is \<^verbatim>\<open>Path('package/dist').glob(pat)\<close>, each path as \<^verbatim>\<open>str(path)\<close>\<close>
  "collect_packages env fs =
     (map (\<lambda>(platform_name, formats).
             (platform_name,
              concat (map (\<lambda>(format_name, pattern, mime).
                             filter (isfile fs) (glob env pattern)) formats)))
          dist_packages,
      [Print CollectingPackages])"

subsection \<open>verify\_packages\<close>

definition is_space :: "nat \<Rightarrow> bool" where
  \<comment> \<open>the code points at which \<^verbatim>\<open>str.strip()\<close> and \<^verbatim>\<open>str.split()\<close> cut: those for which
      \<^verbatim>\<open>str.isspace()\<close> holds\<close>
  "is_space n =
     ((0x0009 \<le> n \<and> n \<le> 0x000D) \<or> (0x001C \<le> n \<and> n \<le> 0x0020) \<or>
      n = 0x0085 \<or> n = 0x00A0 \<or> n = 0x1680 \<or> (0x2000 \<le> n \<and> n \<le> 0x200A) \<or>
      n = 0x2028 \<or> n = 0x2029 \<or> n = 0x202F \<or> n = 0x205F \<or> n = 0x3000)"

definition first_token :: "ustr \<Rightarrow> ustr out" where
  \<comment> \<open>\<^verbatim>\<open>s.strip().split()[0]\<close>: the first run of code points that are not white space;
      \<^verbatim>\<open>IndexError\<close> when there is none\<close>
  "first_token s =
     (let t = takeWhile (\<lambda>n. \<not> is_space n) (dropWhile is_space s)
      in if t = [] then throw IndexError else ok t)"

datatype ('r, 'a) flow = Return 'r | Continue 'a

fun check_hashes_dist :: "('sk, 'pk) env \<Rightarrow> fs \<Rightarrow> path \<Rightarrow> string list \<Rightarrow> ustr option \<Rightarrow>
    (bool, ustr option) flow out" where
  \<comment> \<open>the loop over the algorithms; the last argument is the variable \<^verbatim>\<open>expected_hash\<close>,
      \<open>None\<close> while it is unbound\<close>
  "check_hashes_dist env fs p [] expected_hash = ok (Continue expected_hash)"
| "check_hashes_dist env fs p (a # as) expected_hash =
     (let hash_path = p @ ''.'' @ a in
      if \<not> exists fs hash_path then print_then (HashNotFound a) (ok (Return False))
      else
        and_then (read_text env fs hash_path) (\<lambda>text.
        and_then (first_token text) (\<lambda>expected.
        and_then (read_file fs p) (\<lambda>c.
          if str_of (hexdigest env a c) \<noteq> expected
          then print_then (HashInvalid a) (ok (Return False))
          else check_hashes_dist env fs p as (Some expected)))))"

definition check_signature_dist :: "('sk, 'pk) env \<Rightarrow> fs \<Rightarrow> path \<Rightarrow> ustr option \<Rightarrow>
    (bool, unit) flow out" where
  "check_signature_dist env fs p expected_hash =
     (let sig_path = p @ ''.sig'' in
      if \<not> exists fs sig_path then print_then SignatureNotFound (ok (Return False))
      else
        and_then (read_text env fs sig_path) (\<lambda>text.
        and_then (from_option Base64Error (b64decode env text)) (\<lambda>signature.
        and_then (read_file fs ''security/keys/public.pem'') (\<lambda>pem.
        and_then (from_option ValueError (load_pem_public_key env pem)) (\<lambda>public_key.
          \<comment> \<open>\<^verbatim>\<open>try: public_key.verify(signature, expected_hash.encode(), ...)  except: ...\<close>;
              an unbound \<^verbatim>\<open>expected_hash\<close> and a failing \<^verbatim>\<open>encode()\<close> raise inside the
              \<^verbatim>\<open>try\<close> and are caught there\<close>
          case expected_hash of
            None \<Rightarrow> print_then SignatureInvalid (ok (Return False))
          | Some expected \<Rightarrow>
              (case encode env expected of
                 None \<Rightarrow> print_then SignatureInvalid (ok (Return False))
               | Some data \<Rightarrow>
                   and_then (emit (Verify signature data dist_pss SHA256)) (\<lambda>_.
                     if rsa_verify env public_key signature data dist_pss SHA256
                     then ok (Continue ())
                     else print_then SignatureInvalid (ok (Return False)))))))))"

definition verify_one :: "('sk, 'pk) env \<Rightarrow> fs \<Rightarrow> path \<Rightarrow> (bool, unit) flow out" where
  \<comment> \<open>the body of the loop \<^verbatim>\<open>for path in paths\<close>\<close>
  "verify_one env fs p =
     print_then (Verifying (basename p))
       (and_then (check_hashes_dist env fs p dist_algorithms None) (\<lambda>r.
          case r of
            Return b \<Rightarrow> ok (Return b)
          | Continue expected_hash \<Rightarrow>
              if dist_signature then check_signature_dist env fs p expected_hash
              else ok (Continue ())))"

fun verify_paths :: "('sk, 'pk) env \<Rightarrow> fs \<Rightarrow> path list \<Rightarrow> (bool, unit) flow out" where
  "verify_paths env fs [] = ok (Continue ())"
| "verify_paths env fs (p # ps) =
     and_then (verify_one env fs p) (\<lambda>r.
       case r of
         Return b \<Rightarrow> ok (Return b)
       | Continue _ \<Rightarrow> verify_paths env fs ps)"

fun verify_platforms :: "('sk, 'pk) env \<Rightarrow> fs \<Rightarrow> (string \<times> path list) list \<Rightarrow>
    (bool, unit) flow out" where
  "verify_platforms env fs [] = ok (Continue ())"
| "verify_platforms env fs ((platform_name, paths) # rest) =
     and_then (verify_paths env fs paths) (\<lambda>r.
       case r of
         Return b \<Rightarrow> ok (Return b)
       | Continue _ \<Rightarrow> verify_platforms env fs rest)"

definition verify_packages :: "('sk, 'pk) env \<Rightarrow> fs \<Rightarrow> (string \<times> path list) list \<Rightarrow>
    bool \<times> event list" where
  "verify_packages env fs packages =
     try_except
       (if \<not> dist_enabled then ok True
        else
          print_then VerifyingPackages
            (and_then (verify_platforms env fs packages) (\<lambda>r.
               case r of
                 Return b \<Rightarrow> ok b
               | Continue _ \<Rightarrow> print_then AllPackagesVerified (ok True))))
       ErrVerifyPackages False"

subsection \<open>The publish functions\<close>

definition falsy :: "string option \<Rightarrow> bool" where
  \<comment> \<open>\<^verbatim>\<open>not os.environ.get(name)\<close>: the variable is unset or empty\<close>
  "falsy v = (v = None \<or> v = Some [])"

definition strip :: "ustr \<Rightarrow> ustr" where
  \<comment> \<open>\<^verbatim>\<open>s.strip()\<close>\<close>
  "strip s = rev (dropWhile is_space (rev (dropWhile is_space s)))"

definition call :: "('sk, 'pk) env \<Rightarrow> channel \<Rightarrow> exn \<Rightarrow> ustr list \<Rightarrow> unit out" where
  \<comment> \<open>one \<^verbatim>\<open>requests.post(...)\<close> with \<^verbatim>\<open>raise_for_status()\<close>, or one
      \<^verbatim>\<open>subprocess.run(..., check=True)\<close>\<close>
  "call env c e args =
     and_then (emit (Call c args)) (\<lambda>_. if call_ok env c args then ok () else throw e)"

definition path_match :: "path \<Rightarrow> string \<Rightarrow> bool" where
  \<comment> \<open>\<^verbatim>\<open>Path(path).match(pattern)\<close> for the patterns of the configuration, \<^verbatim>\<open>*\<close> then a suffix\<close>
  "path_match p pattern =
     (case pattern of [] \<Rightarrow> False | c # ext \<Rightarrow> c = CHR ''*'' \<and> endswith (basename p) ext)"

fun find_mime :: "path \<Rightarrow> (string \<times> string \<times> string) list \<Rightarrow> string option \<Rightarrow> string option" where
  \<comment> \<open>the loop that sets \<^verbatim>\<open>mime_type\<close> and breaks; the variable keeps its old value when no
      pattern matches\<close>
  "find_mime p [] mime_type = mime_type"
| "find_mime p ((format_name, pattern, mime) # rest) mime_type =
     (if path_match p pattern then Some mime else find_mime p rest mime_type)"

fun upload_hashes_github :: "('sk, 'pk) env \<Rightarrow> fs \<Rightarrow> path \<Rightarrow> string list \<Rightarrow> unit out" where
  "upload_hashes_github env fs p [] = ok ()"
| "upload_hashes_github env fs p (a # as) =
     and_then (read_file fs (p @ ''.'' @ a)) (\<lambda>_.
     and_then (from_option (KeyError ''upload_url'') (upload_url env)) (\<lambda>url.
     and_then (call env Github HTTPError
                 [str_of ''POST'', url, str_of (basename (p @ ''.'' @ a)), str_of ''text/plain''])
       (\<lambda>_. upload_hashes_github env fs p as)))"

definition upload_github :: "('sk, 'pk) env \<Rightarrow> fs \<Rightarrow> string \<Rightarrow> path \<Rightarrow> string option \<Rightarrow>
    string option out" where
  \<comment> \<open>the body of the loop over the paths; the result is \<^verbatim>\<open>mime_type\<close> after it\<close>
  "upload_github env fs platform_name p mime_type =
     print_then (Sending (basename p))
       (and_then (from_option (KeyError platform_name) (map_of dist_packages platform_name))
          (\<lambda>formats.
        let mime_type' = find_mime p formats mime_type in
        and_then (read_file fs p) (\<lambda>_.
        and_then (from_option (KeyError ''upload_url'') (upload_url env)) (\<lambda>url.
        and_then (from_option UnboundLocalError mime_type') (\<lambda>mime.
        and_then (call env Github HTTPError
                    [str_of ''POST'', url, str_of (basename p), str_of mime]) (\<lambda>_.
        and_then (upload_hashes_github env fs p dist_algorithms) (\<lambda>_.
        and_then
          (if dist_signature then
             and_then (read_file fs (p @ ''.sig'')) (\<lambda>_.
             and_then (from_option (KeyError ''upload_url'') (upload_url env)) (\<lambda>url.
               call env Github HTTPError
                 [str_of ''POST'', url, str_of (basename (p @ ''.sig'')), str_of ''text/plain'']))
           else ok ())
          (\<lambda>_. ok mime_type'))))))))"

fun upload_paths_github :: "('sk, 'pk) env \<Rightarrow> fs \<Rightarrow> string \<Rightarrow> path list \<Rightarrow> string option \<Rightarrow>
    string option out" where
  "upload_paths_github env fs platform_name [] mime_type = ok mime_type"
| "upload_paths_github env fs platform_name (p # ps) mime_type =
     and_then (upload_github env fs platform_name p mime_type)
       (\<lambda>mime_type'. upload_paths_github env fs platform_name ps mime_type')"

fun upload_platforms_github :: "('sk, 'pk) env \<Rightarrow> fs \<Rightarrow> (string \<times> path list) list \<Rightarrow>
    string option \<Rightarrow> string option out" where
  "upload_platforms_github env fs [] mime_type = ok mime_type"
| "upload_platforms_github env fs ((platform_name, paths) # rest) mime_type =
     and_then (upload_paths_github env fs platform_name paths mime_type)
       (\<lambda>mime_type'. upload_platforms_github env fs rest mime_type')"

definition publish_github :: "('sk, 'pk) env \<Rightarrow> fs \<Rightarrow> (string \<times> path list) list \<Rightarrow>
    bool \<times> event list" where
  "publish_github env fs packages =
     try_except
       (print_then (Publishing Github)
          (if falsy (environ env ''GITHUB_TOKEN'') then print_then (TokenNotFound Github) (ok False)
           else
             and_then (read_text env fs ''version.txt'') (\<lambda>text.
             let version = strip text in
             and_then (call env Github HTTPError
                         [str_of ''POST'', str_of ''releases'', str_of ''v'' @ version]) (\<lambda>_.
             and_then (upload_platforms_github env fs packages None) (\<lambda>_.
               print_then (Published Github) (ok True))))))
       (ErrPublish Github) False"

fun scp_hashes :: "('sk, 'pk) env \<Rightarrow> ustr \<Rightarrow> path \<Rightarrow> string list \<Rightarrow> unit out" where
  "scp_hashes env dest p [] = ok ()"
| "scp_hashes env dest p (a # as) =
     and_then (call env Sourceforge CalledProcessError
                 [str_of ''scp'', str_of (p @ ''.'' @ a), dest])
       (\<lambda>_. scp_hashes env dest p as)"

fun scp_paths :: "('sk, 'pk) env \<Rightarrow> ustr \<Rightarrow> path list \<Rightarrow> unit out" where
  "scp_paths env dest [] = ok ()"
| "scp_paths env dest (p # ps) =
     print_then (Sending (basename p))
       (and_then (call env Sourceforge CalledProcessError [str_of ''scp'', str_of p, dest]) (\<lambda>_.
        and_then (scp_hashes env dest p dist_algorithms) (\<lambda>_.
        and_then
          (if dist_signature
           then call env Sourceforge CalledProcessError
                  [str_of ''scp'', str_of (p @ ''.sig''), dest]
           else ok ())
          (\<lambda>_. scp_paths env dest ps))))"

fun scp_platforms :: "('sk, 'pk) env \<Rightarrow> ustr \<Rightarrow> (string \<times> path list) list \<Rightarrow> unit out" where
  "scp_platforms env dest [] = ok ()"
| "scp_platforms env dest ((platform_name, paths) # rest) =
     and_then (scp_paths env dest paths) (\<lambda>_. scp_platforms env dest rest)"

definition publish_sourceforge :: "('sk, 'pk) env \<Rightarrow> fs \<Rightarrow> (string \<times> path list) list \<Rightarrow>
    bool \<times> event list" where
  "publish_sourceforge env fs packages =
     try_except
       (print_then (Publishing Sourceforge)
          (if falsy (environ env ''SF_USERNAME'') \<or> falsy (environ env ''SF_PASSWORD'')
           then print_then (TokenNotFound Sourceforge) (ok False)
           else
             let username = the (environ env ''SF_USERNAME'') in
             and_then (read_text env fs ''version.txt'') (\<lambda>text.
             let version_dir = str_of ''/home/frs/project/mega-emu/'' @ strip text;
                 host = str_of (username @ ''@frs.sourceforge.net'') in
             and_then (call env Sourceforge CalledProcessError
                         [str_of ''ssh'', host, str_of ''mkdir'', str_of ''-p'', version_dir])
               (\<lambda>_.
             and_then (scp_platforms env (host @ str_of '':'' @ version_dir) packages) (\<lambda>_.
               print_then (Published Sourceforge) (ok True))))))
       (ErrPublish Sourceforge) False"

fun push_paths :: "('sk, 'pk) env \<Rightarrow> string \<Rightarrow> path list \<Rightarrow> unit out" where
  "push_paths env platform_name [] = ok ()"
| "push_paths env platform_name (p # ps) =
     print_then (Sending (basename p))
       (and_then (from_option (KeyError platform_name) (map_of itch_channel platform_name))
          (\<lambda>ch.
        and_then (call env Itch CalledProcessError
                    [str_of ''butler'', str_of ''push'', str_of p,
                     str_of (''mega-emu/mega-emu:'' @ ch)])
          (\<lambda>_. push_paths env platform_name ps)))"

fun push_platforms :: "('sk, 'pk) env \<Rightarrow> (string \<times> path list) list \<Rightarrow> unit out" where
  "push_platforms env [] = ok ()"
| "push_platforms env ((platform_name, paths) # rest) =
     and_then (push_paths env platform_name paths) (\<lambda>_. push_platforms env rest)"

definition publish_itch :: "('sk, 'pk) env \<Rightarrow> fs \<Rightarrow> (string \<times> path list) list \<Rightarrow>
    bool \<times> event list" where
  "publish_itch env fs packages =
     try_except
       (print_then (Publishing Itch)
          (if falsy (environ env ''ITCH_TOKEN'') then print_then (TokenNotFound Itch) (ok False)
           else
             let token = the (environ env ''ITCH_TOKEN'') in
             and_then (call env Itch CalledProcessError
                         [str_of ''butler'', str_of ''login'', str_of token]) (\<lambda>_.
             and_then (push_platforms env packages) (\<lambda>_.
               print_then (Published Itch) (ok True)))))
       (ErrPublish Itch) False"

subsection \<open>main: the command publish\<close>

definition publish_step :: "bool \<Rightarrow> bool \<times> event list \<Rightarrow> (int \<times> event list) \<Rightarrow> int \<times> event list" where
  \<comment> \<open>\<^verbatim>\<open>if selected: if not publish(packages): return 1\<close>, then the rest of \<^verbatim>\<open>main\<close>\<close>
  "publish_step selected publish rest =
     (if selected then
        (case publish of (b, l) \<Rightarrow>
           if \<not> b then (1, l) else (case rest of (code, l') \<Rightarrow> (code, l @ l')))
      else rest)"

definition main_dist :: "('sk, 'pk) env \<Rightarrow> fs \<Rightarrow> string \<Rightarrow> int \<times> event list" where
  \<comment> \<open>\<^verbatim>\<open>main\<close> with \<^verbatim>\<open>sys.argv = [script, 'publish', platform]\<close>; the result is the exit code\<close>
  "main_dist env fs platform =
     (if platform \<notin> set [''github'', ''sourceforge'', ''itch'', ''all'']
      then (1, [Print (InvalidPlatform platform)])
      else
        case collect_packages env fs of (packages, l0) \<Rightarrow>
          if packages = [] then (1, l0)
          else
            case verify_packages env fs packages of (valid, l1) \<Rightarrow>
              if \<not> valid then (1, l0 @ l1)
              else
                case
                  publish_step (platform = ''github'' \<or> platform = ''all'')
                    (publish_github env fs packages)
                    (publish_step (platform = ''sourceforge'' \<or> platform = ''all'')
                       (publish_sourceforge env fs packages)
                       (publish_step (platform = ''itch'' \<or> platform = ''all'')
                          (publish_itch env fs packages)
                          (0, [])))
                of (code, l2) \<Rightarrow> (code, l0 @ l1 @ l2))"

definition is_call :: "event \<Rightarrow> bool" where
  "is_call ev = (case ev of Call c args \<Rightarrow> True | _ \<Rightarrow> False)"

definition no_calls :: "event list \<Rightarrow> bool" where
  \<comment> \<open>the events hold no network or process call of a publish function\<close>
  "no_calls l = list_all (\<lambda>ev. \<not> is_call ev) l"

section \<open>manage\_package.py\<close>

definition package_enabled :: bool where "package_enabled = True"
definition package_algorithms :: "string list" where
  "package_algorithms = [''sha256'', ''sha512'']"
definition package_signature :: bool where "package_signature = True"

text \<open>
  In \<^verbatim>\<open>verify_package\<close> the local name \<^verbatim>\<open>hashes\<close> is bound twice: to the dict of the
  digests (\<^verbatim>\<open>hashes = {}\<close>, then \<^verbatim>\<open>hashes[algorithm] = ...\<close>), and, when the signature is
  made, to a module, by the statement
  \<^verbatim>\<open>from cryptography.hazmat.primitives import hashes\<close> inside the function. \<open>pyval\<close>
  holds the two kinds of value the name takes; subscripting a module raises
  \<^verbatim>\<open>TypeError\<close>, and a dict has no attribute \<^verbatim>\<open>SHA256\<close>.
\<close>

datatype pyval = PyDict "(string \<times> string) list" | PyModule

definition subscript :: "pyval \<Rightarrow> string \<Rightarrow> string out" where
  \<comment> \<open>\<^verbatim>\<open>hashes[k]\<close>\<close>
  "subscript v k =
     (case v of
        PyDict d \<Rightarrow> from_option (KeyError k) (map_of d k)
      | PyModule \<Rightarrow> throw TypeError)"

definition attribute :: "pyval \<Rightarrow> hash_alg \<Rightarrow> hash_alg out" where
  \<comment> \<open>\<^verbatim>\<open>hashes.SHA256()\<close>\<close>
  "attribute v a =
     (case v of
        PyModule \<Rightarrow> ok a
      | PyDict d \<Rightarrow> throw AttributeError)"

definition newline :: char where "newline = CHR 0x0A"

fun save_hashes :: "('sk, 'pk) env \<Rightarrow> fs \<Rightarrow> path \<Rightarrow> string list \<Rightarrow> (string \<times> string) list \<Rightarrow>
    (exn + (string \<times> string) list) \<times> event list \<times> fs" where
  \<comment> \<open>the loop over the algorithms: each digest is computed, kept in \<^verbatim>\<open>hashes\<close> and
      written to \<^verbatim>\<open>{package}.{algorithm}\<close>\<close>
  "save_hashes env fs package [] hashes = (Inr hashes, [], fs)"
| "save_hashes env fs package (a # as) hashes =
     (case read_file fs package of
        (Inl e, l) \<Rightarrow> (Inl e, l, fs)
      | (Inr c, l) \<Rightarrow>
          let hashes' = AList.update a (hexdigest env a c) hashes;
              hash_path = package @ ''.'' @ a
          in (case write_file fs hash_path
                     (hexdigest env a c @ '' '' @ basename package @ [newline]) of
                Inl e \<Rightarrow> (Inl e, l, fs)
              | Inr fs' \<Rightarrow>
                  (case save_hashes env fs' package as hashes' of
                     (r, l', fs'') \<Rightarrow> (r, l @ l', fs''))))"

definition make_signature :: "('sk, 'pk) env \<Rightarrow> fs \<Rightarrow> pyval \<Rightarrow> string out" where
  \<comment> \<open>the private key is loaded, then
      \<^verbatim>\<open>private_key.sign(hashes['sha256'].encode(), padding.PSS(mgf=padding.MGF1(hashes.SHA256()),
      salt_length=padding.PSS.MAX_LENGTH), hashes.SHA256())\<close>,
      its arguments evaluated from left to right\<close>
  "make_signature env fs hashes =
     and_then (read_file fs ''security/keys/private.pem'') (\<lambda>pem.
     and_then (from_option ValueError (load_pem_private_key env pem)) (\<lambda>private_key.
     and_then (subscript hashes ''sha256'') (\<lambda>data.
     and_then (attribute hashes SHA256) (\<lambda>mgf_alg.
     and_then (attribute hashes SHA256) (\<lambda>alg.
       let padding = \<lparr>mgf1 = mgf_alg, salt_length = MAX_LENGTH\<rparr> in
       and_then (emit (Sign data padding alg)) (\<lambda>_.
         from_option ValueError (rsa_sign env private_key data padding alg)))))))"

definition verify_package :: "('sk, 'pk) env \<Rightarrow> fs \<Rightarrow> path \<Rightarrow> bool \<times> event list \<times> fs" where
  "verify_package env fs package =
     (if \<not> package_enabled then (True, [], fs)
      else
        case save_hashes env fs package package_algorithms [] of
          (Inl e, l, fs1) \<Rightarrow>
            (False, Print (VerifyingPackage package) # l @ [Print (ErrVerifyPackage e)], fs1)
        | (Inr hashes, l, fs1) \<Rightarrow>
            if package_signature then
              \<comment> \<open>\<^verbatim>\<open>from cryptography.hazmat.primitives import hashes\<close> rebinds the name\<close>
              (let hashes = PyModule in
               case make_signature env fs1 hashes of
                 (Inl e, l') \<Rightarrow>
                   (False,
                    Print (VerifyingPackage package) # l @ l' @ [Print (ErrVerifyPackage e)], fs1)
               | (Inr signature, l') \<Rightarrow>
                   (case write_file fs1 (package @ ''.sig'') (b64encode env signature) of
                      Inl e \<Rightarrow>
                        (False,
                         Print (VerifyingPackage package) # l @ l' @ [Print (ErrVerifyPackage e)],
                         fs1)
                    | Inr fs2 \<Rightarrow>
                        (True, Print (VerifyingPackage package) # l @ l' @ [Print PackageVerified],
                         fs2)))
            else (True, Print (VerifyingPackage package) # l @ [Print PackageVerified], fs1))"

section \<open>A small environment for concrete runs\<close>

text \<open>
  Stand-ins for the libraries, small enough to evaluate: a digest that keeps the bytes, a
  signature that is the key and the signed bytes, a dump of a dict as \<^verbatim>\<open>key=value;\<close>, the
  ASCII codec. They are used only to run the scripts on concrete files.
\<close>

fun fields :: "char \<Rightarrow> string \<Rightarrow> string \<Rightarrow> string list" where
  \<comment> \<open>the pieces of a string that end in the separator\<close>
  "fields sep acc [] = []"
| "fields sep acc (c # cs) =
     (if c = sep then rev acc # fields sep [] cs else fields sep (c # acc) cs)"

definition demo_load :: "string \<Rightarrow> json option" where
  "demo_load s =
     Some (JObj (map (\<lambda>f. (takeWhile (\<lambda>c. c \<noteq> CHR ''='') f,
                            JStr (drop 1 (dropWhile (\<lambda>c. c \<noteq> CHR ''='') f))))
                     (fields CHR '';'' [] s)))"

definition demo_env :: "(string, string) env" where
  "demo_env =
     \<lparr>hexdigest = (\<lambda>a c. a @ '':'' @ c),
      sha512_digest = (\<lambda>c. ''raw:'' @ c),
      load_pem_private_key = (\<lambda>s. if s = ''PRIVATE'' then Some ''k1'' else None),
      load_pem_public_key = (\<lambda>s. if s = ''PUBLIC'' then Some ''k1'' else None),
      rsa_sign = (\<lambda>sk m p h. Some (sk @ ''|'' @ m)),
      rsa_verify = (\<lambda>pk s m p h. s = pk @ ''|'' @ m),
      json_dump = (\<lambda>d. concat (map (\<lambda>(k, v). k @ ''='' @ v @ '';'') d)),
      json_load = demo_load,
      b64encode = (\<lambda>s. ''b64:'' @ s),
      b64decode = (\<lambda>t. if take 4 t = str_of ''b64:'' then Some (map char_of (drop 4 t))
                        else None),
      decode = (\<lambda>b. if list_all (\<lambda>c. of_char c < (128 :: nat)) b then Some (str_of b)
                     else None),
      encode = (\<lambda>t. if list_all (\<lambda>n. n < 128) t then Some (map char_of t) else None),
      environ = (\<lambda>name. Some ''secret''),
      glob = (\<lambda>pattern. if pattern = ''*.zip''
                then [''package/dist/a.zip'', ''package/dist/b.zip'', ''package/dist/c.zip'']
                else []),
      call_ok = (\<lambda>c args. True),
      upload_url = Some (str_of ''https://uploads'')\<rparr>"

definition security_fs :: fs where
  \<comment> \<open>the directories of the security script, its key pair and one artifact\<close>
  "security_fs =
     [''security/keys'' \<mapsto> Dir,
      ''security/hashes'' \<mapsto> Dir,
      ''security/signatures'' \<mapsto> Dir,
      ''security/keys/rsa_private.pem'' \<mapsto> File ''PRIVATE'',
      ''security/keys/rsa_public.pem'' \<mapsto> File ''PUBLIC'',
      ''game.rom'' \<mapsto> File ''abc'',
      ''locked.rom'' \<mapsto> Denied,
      ''demo.tar.gz'' \<mapsto> File ''xyz'']"

definition package_fs :: fs where
  \<comment> \<open>one package as the packaging stage finds it, and the key pair\<close>
  "package_fs =
     [''package/dist'' \<mapsto> Dir,
      ''security/keys/private.pem'' \<mapsto> File ''PRIVATE'',
      ''security/keys/public.pem'' \<mapsto> File ''PUBLIC'',
      ''package/dist/a.zip'' \<mapsto> File ''AAA'']"

definition dist_fs :: fs where
  \<comment> \<open>three packages: \<^verbatim>\<open>a.zip\<close> with matching digests and signature, \<^verbatim>\<open>b.zip\<close> changed
      after its digests were stored, \<^verbatim>\<open>c.zip\<close> without a signature file\<close>
  "dist_fs =
     [''package/dist'' \<mapsto> Dir,
      ''security/keys/public.pem'' \<mapsto> File ''PUBLIC'',
      ''package/dist/a.zip'' \<mapsto> File ''AAA'',
      ''package/dist/a.zip.sha256'' \<mapsto> File (''sha256:AAA a.zip'' @ [newline]),
      ''package/dist/a.zip.sha512'' \<mapsto> File (''sha512:AAA a.zip'' @ [newline]),
      ''package/dist/a.zip.sig'' \<mapsto> File ''b64:k1|sha512:AAA'',
      ''package/dist/b.zip'' \<mapsto> File ''BBB!'',
      ''package/dist/b.zip.sha256'' \<mapsto> File (''sha256:BBB b.zip'' @ [newline]),
      ''package/dist/b.zip.sha512'' \<mapsto> File (''sha512:BBB b.zip'' @ [newline]),
      ''package/dist/b.zip.sig'' \<mapsto> File ''b64:k1|sha512:BBB'',
      ''package/dist/c.zip'' \<mapsto> File ''CCC'',
      ''package/dist/c.zip.sha256'' \<mapsto> File (''sha256:CCC c.zip'' @ [newline]),
      ''package/dist/c.zip.sha512'' \<mapsto> File (''sha512:CCC c.zip'' @ [newline])]"

definition hashed_fs :: fs where
  \<comment> \<open>\<open>security_fs\<close> after the \<^verbatim>\<open>hash\<close> command on \<^verbatim>\<open>game.rom\<close>\<close>
  "hashed_fs =
     security_fs(''security/hashes/game.rom.json'' \<mapsto>
                   File ''sha256=sha256:abc;sha512=sha512:abc;'')"

definition stale_fs :: fs where
  \<comment> \<open>then one byte is appended to \<^verbatim>\<open>game.rom\<close>\<close>
  "stale_fs = hashed_fs(''game.rom'' \<mapsto> File ''abcd'')"


section \<open>The exception and event combinators\<close>

lemma and_then_Inr: "and_then (Inr x, l) f = (fst (f x), l @ snd (f x))"
  by (simp add: and_then_def split: prod.splits)

lemma and_then_Inl: "and_then (Inl e, l) f = (Inl e, l)"
  by (simp add: and_then_def)

lemma and_then_ok: "and_then (ok x) f = f x"
  by (simp add: and_then_def ok_def split: prod.splits)

lemma and_then_throw: "and_then (throw e) f = throw e"
  by (simp add: and_then_def throw_def)

lemma print_then_eq: "print_then m k = (fst k, Print m # snd k)"
  by (simp add: print_then_def emit_def and_then_Inr)

lemma read_file_File: "fs p = Some (File c) \<Longrightarrow> read_file fs p = (Inr c, [Open p])"
  by (simp add: read_file_def emit_def and_then_Inr ok_def)

lemma read_text_File:
  "fs p = Some (File b) \<Longrightarrow> decode env b = Some t \<Longrightarrow> read_text env fs p = (Inr t, [Open p])"
  by (simp add: read_text_def read_file_File and_then_Inr from_option_def ok_def)

lemma str_of_bytes: "map char_of (str_of s) = s"
  by (simp add: str_of_def comp_def)

lemma str_of_eq: "(str_of a = str_of b) = (a = b)"
  by (simp add: str_of_def inj_map_eq_map inj_on_def)

lemma str_of_Nil: "(str_of s = []) = (s = [])"
  by (simp add: str_of_def)

lemma str_of_take: "take n (str_of s) = str_of (take n s)"
  by (simp add: str_of_def take_map)

lemma str_of_drop: "drop n (str_of s) = str_of (drop n s)"
  by (simp add: str_of_def drop_map)

lemma str_of_list_all: "list_all P (str_of s) = list_all (\<lambda>c. P (of_char c)) s"
  by (simp add: str_of_def list_all_iff)

lemma str_of_takeWhile: "takeWhile P (str_of s) = str_of (takeWhile (\<lambda>c. P (of_char c)) s)"
  by (simp add: str_of_def takeWhile_map comp_def)

lemma str_of_dropWhile: "dropWhile P (str_of s) = str_of (dropWhile (\<lambda>c. P (of_char c)) s)"
  by (simp add: str_of_def dropWhile_map comp_def)

lemmas str_of_simps =
  str_of_bytes str_of_eq str_of_Nil str_of_take str_of_drop str_of_list_all str_of_takeWhile
  str_of_dropWhile

text \<open>A no-break space (U+00A0) ends the first token of a text, as any white space does.\<close>

lemma first_token_no_break_space:
  "first_token (str_of ''0a1b'' @ [0x00A0] @ str_of ''a.zip'') = ok (str_of ''0a1b'')"
  by (simp add: first_token_def is_space_def str_of_def)

lemma read_file_fails: "\<not> readable fs p \<Longrightarrow> \<exists>e. read_file fs p = (Inl e, [Open p])"
  by (auto simp: readable_def read_file_def emit_def and_then_Inr throw_def
           split: option.splits node.splits)

section \<open>manage\_security.py: the extension list\<close>

lemma endswith_last: "endswith s e \<Longrightarrow> e \<noteq> [] \<Longrightarrow> last s = last e"
  unfolding endswith_def
  by (metis append_take_drop_id last_appendR)

text \<open>
  C8. A file whose name ends in none of \<^verbatim>\<open>.exe .dll .so .dylib .rom\<close> is reported valid by
  \<^verbatim>\<open>verify_file\<close> at once: the result is \<open>True\<close> and the event list is empty, so no file
  is opened, no digest compared and no signature checked; the \<^verbatim>\<open>verify\<close> command then
  exits with code 0. Names ending in \<^verbatim>\<open>.tar.gz\<close> or \<^verbatim>\<open>.zip\<close> are such names.
\<close>

theorem verify_file_extension_bypass:
  "(\<not> list_ex (endswith p) extensions \<longrightarrow>
      verify_file env fs p = (True, []) \<and>
      (isfile fs p \<longrightarrow> main_security env fs CmdVerify p = (0, [], fs))) \<and>
   (endswith p ''.tar.gz'' \<or> endswith p ''.zip'' \<longrightarrow> \<not> list_ex (endswith p) extensions)"
proof -
  have "\<not> list_ex (endswith p) extensions" if "endswith p ''.tar.gz'' \<or> endswith p ''.zip''"
    using that by (auto simp: extensions_def dest!: endswith_last)
  then show ?thesis
    by (simp add: verify_file_def main_security_def try_except_def ok_def)
qed

theorem verify_file_extension_bypass_witness:
  "endswith ''demo.tar.gz'' ''.tar.gz'' \<and>
   \<not> list_ex (endswith ''demo.tar.gz'') extensions \<and>
   isfile security_fs ''demo.tar.gz'' \<and>
   verify_file demo_env security_fs ''demo.tar.gz'' = (True, []) \<and>
   main_security demo_env security_fs CmdVerify ''demo.tar.gz'' = (0, [], security_fs)"
proof -
  have h: "endswith ''demo.tar.gz'' ''.tar.gz''"
    by (simp add: endswith_def)
  have f: "isfile security_fs ''demo.tar.gz''"
    by (simp add: isfile_def security_fs_def)
  from verify_file_extension_bypass [of "''demo.tar.gz''" demo_env security_fs] f h
  show ?thesis by simp
qed

section \<open>manage\_security.py: calculate\_hashes\<close>

lemma hash_each_fails:
  "\<not> readable fs p \<Longrightarrow> as \<noteq> [] \<Longrightarrow> \<exists>e. hash_each env fs p as hs = (Inl e, [Open p])"
  using read_file_fails [of fs p]
  by (cases as) (auto simp: and_then_Inl)

text \<open>
  C7, as the spec states it, fails: at a file that cannot be opened, \<^verbatim>\<open>calculate_hashes\<close>
  returns the empty dict, and no exception reaches the caller.
\<close>

theorem calculate_hashes_propagates_counterexample:
  "calculate_hashes demo_env security_fs ''locked.rom'' =
     ([], [Open ''locked.rom'', Print (ErrCalculateHashes (PermissionError ''locked.rom''))])"
  by (simp add: calculate_hashes_def algorithms_def try_except_def read_file_def emit_def
        and_then_Inr and_then_Inl throw_def security_fs_def)

text \<open>
  C7, amended. For every path that cannot be opened for reading, \<^verbatim>\<open>calculate_hashes\<close>
  opens it once, catches the error, prints \<^verbatim>\<open>Erro ao calcular hashes\<close> and returns the
  empty dict; the \<^verbatim>\<open>hash\<close> command then exits with code 1 and writes no file.
\<close>

theorem calculate_hashes_unreadable:
  "\<not> readable fs p \<Longrightarrow>
     (\<exists>e. calculate_hashes env fs p = ([], [Open p, Print (ErrCalculateHashes e)])) \<and>
     fst (main_security env fs CmdHash p) = 1 \<and>
     snd (snd (main_security env fs CmdHash p)) = fs"
proof -
  assume a: "\<not> readable fs p"
  from hash_each_fails [OF a, of algorithms env "[]"]
  obtain e where e: "hash_each env fs p algorithms [] = (Inl e, [Open p])"
    by (auto simp: algorithms_def)
  then have c: "calculate_hashes env fs p = ([], [Open p, Print (ErrCalculateHashes e)])"
    by (simp add: calculate_hashes_def try_except_def)
  then show ?thesis
    by (auto simp: main_security_def)
qed

theorem calculate_hashes_unreadable_witness:
  "\<not> readable security_fs ''locked.rom'' \<and>
   isfile security_fs ''locked.rom'' \<and>
   fst (calculate_hashes demo_env security_fs ''locked.rom'') = [] \<and>
   fst (main_security demo_env security_fs CmdHash ''locked.rom'') = 1"
proof -
  have h: "\<not> readable security_fs ''locked.rom''"
    by (simp add: readable_def security_fs_def)
  have f: "isfile security_fs ''locked.rom''"
    by (simp add: isfile_def security_fs_def)
  from calculate_hashes_unreadable [OF h, of demo_env] h f
  show ?thesis by auto
qed

section \<open>manage\_security.py: sign\_file\<close>

lemma sign_file_events:
  "Sign m padding alg \<in> set (snd (sign_file env fs p)) \<Longrightarrow>
     (\<exists>c. fs p = Some (File c) \<and> m = sha512_digest env c) \<and>
     padding = \<lparr>mgf1 = SHA512, salt_length = Salt 64\<rparr> \<and> alg = SHA512"
  by (auto simp: sign_file_def try_except_def read_file_def emit_def and_then_def ok_def
        throw_def from_option_def security_pss_def cfg_salt_length_def Let_def
      split: option.splits node.splits prod.splits sum.splits if_splits)

lemma sign_file_Some:
  "fst (sign_file env fs p) = Some s \<Longrightarrow>
     \<exists>pem key c. fs (join keys_dir rsa_private) = Some (File pem) \<and>
       load_pem_private_key env pem = Some key \<and> fs p = Some (File c) \<and>
       rsa_sign env key (sha512_digest env c) \<lparr>mgf1 = SHA512, salt_length = Salt 64\<rparr> SHA512 = Some s \<and>
       snd (sign_file env fs p) =
         [Open (join keys_dir rsa_private), Open p,
          Sign (sha512_digest env c) \<lparr>mgf1 = SHA512, salt_length = Salt 64\<rparr> SHA512]"
  by (auto simp: sign_file_def try_except_def read_file_def emit_def and_then_def ok_def
        throw_def from_option_def security_pss_def cfg_salt_length_def Let_def
      split: option.splits node.splits prod.splits sum.splits if_splits)

lemma sign_file_succeeds:
  "fs (join keys_dir rsa_private) = Some (File pem) \<Longrightarrow>
   load_pem_private_key env pem = Some key \<Longrightarrow> fs p = Some (File c) \<Longrightarrow>
   rsa_sign env key (sha512_digest env c) \<lparr>mgf1 = SHA512, salt_length = Salt 64\<rparr> SHA512 = Some s \<Longrightarrow>
   sign_file env fs p = (Some s, [Open (join keys_dir rsa_private), Open p,
          Sign (sha512_digest env c) \<lparr>mgf1 = SHA512, salt_length = Salt 64\<rparr> SHA512])"
  by (simp add: sign_file_def try_except_def read_file_File and_then_Inr emit_def ok_def
        from_option_def security_pss_def cfg_salt_length_def Let_def)

section \<open>manage\_package.py: verify\_package\<close>

lemma save_hashes_events:
  "ev \<in> set (fst (snd (save_hashes env fs p as hs))) \<Longrightarrow> ev = Open p"
proof (induction as arbitrary: fs hs)
  case Nil
  then show ?case by simp
next
  case (Cons a as)
  have ih: "ev \<in> set l \<Longrightarrow> save_hashes env fs' p as hs' = (r, l, fs'') \<Longrightarrow> ev = Open p"
    for l fs' hs' r fs''
    using Cons.IH [of fs' hs'] by simp
  from Cons.prems show ?case
    by (auto simp: read_file_def emit_def and_then_def ok_def throw_def Let_def
          split: option.splits node.splits prod.splits sum.splits dest: ih)
qed

lemma make_signature_module:
  "\<exists>e l. make_signature env fs PyModule = (Inl e, l) \<and> set l \<subseteq> {Open ''security/keys/private.pem''}"
  by (auto simp: make_signature_def read_file_def emit_def and_then_def ok_def throw_def
        from_option_def subscript_def
      split: option.splits node.splits prod.splits sum.splits)

text \<open>
  Whatever the files and the libraries are, \<^verbatim>\<open>verify_package\<close> returns \<open>False\<close> and
  never reaches the call of \<^verbatim>\<open>private_key.sign\<close>: when the digests are written and the
  private key is loaded, \<^verbatim>\<open>hashes['sha256']\<close> subscripts the module that the import
  bound to the name \<^verbatim>\<open>hashes\<close>, and the \<^verbatim>\<open>TypeError\<close> is caught by the function's
  \<^verbatim>\<open>except Exception\<close>.
\<close>

lemma verify_package_False: "fst (verify_package env fs p) = False"
  using make_signature_module [of env]
  apply (simp add: verify_package_def package_enabled_def package_signature_def
         split: prod.splits sum.splits)
  by (metis Inl_Inr_False fst_conv)

lemma verify_package_no_sign:
  "Sign m padding alg \<notin> set (fst (snd (verify_package env fs p)))"
proof -
  obtain r l fs1 where s: "save_hashes env fs p package_algorithms [] = (r, l, fs1)"
    by (cases "save_hashes env fs p package_algorithms []") auto
  from save_hashes_events [of _ env fs p package_algorithms "[]"] s
  have l: "Sign m padding alg \<notin> set l" by auto
  obtain e l' where m: "make_signature env fs1 PyModule = (Inl e, l')"
    "set l' \<subseteq> {Open ''security/keys/private.pem''}"
    using make_signature_module [of env fs1] by auto
  then have l': "Sign m padding alg \<notin> set l'" by auto
  show ?thesis
    using s l m(1) l'
    by (cases r) (simp_all add: verify_package_def package_enabled_def package_signature_def)
qed

text \<open>
  C6. Every call of the library's sign operation that \<^verbatim>\<open>sign_file\<close> makes signs the raw
  SHA-512 digest of the artifact's bytes (what \<^verbatim>\<open>hasher.finalize()\<close> returns, not a hex
  string), with PSS padding, MGF1 over SHA-512 and a salt length of 64 bytes; when
  \<^verbatim>\<open>sign_file\<close> returns a signature, it is the library's signature of that digest under
  these parameters, and the call is the only one. \<^verbatim>\<open>verify_package\<close> of the packaging
  script makes no call of the sign operation at all.
\<close>

theorem signer_parameters:
  "(Sign m padding alg \<in> set (snd (sign_file env fs p)) \<longrightarrow>
      (\<exists>c. fs p = Some (File c) \<and> m = sha512_digest env c) \<and>
      padding = \<lparr>mgf1 = SHA512, salt_length = Salt 64\<rparr> \<and> alg = SHA512) \<and>
   (fst (sign_file env fs p) = Some s \<longrightarrow>
      (\<exists>pem key c. fs (join keys_dir rsa_private) = Some (File pem) \<and>
         load_pem_private_key env pem = Some key \<and> fs p = Some (File c) \<and>
         rsa_sign env key (sha512_digest env c)
           \<lparr>mgf1 = SHA512, salt_length = Salt 64\<rparr> SHA512 = Some s \<and>
         snd (sign_file env fs p) =
           [Open (join keys_dir rsa_private), Open p,
            Sign (sha512_digest env c) \<lparr>mgf1 = SHA512, salt_length = Salt 64\<rparr> SHA512])) \<and>
   Sign m padding alg \<notin> set (fst (snd (verify_package env fs package)))"
  using sign_file_events [of m padding alg env fs p] sign_file_Some [of env fs p s]
    verify_package_no_sign [of m padding alg env fs package]
  by blast

theorem signer_parameters_witness:
  "fst (sign_file demo_env security_fs ''game.rom'') = Some ''k1|raw:abc'' \<and>
   Sign ''raw:abc'' \<lparr>mgf1 = SHA512, salt_length = Salt 64\<rparr> SHA512
     \<in> set (snd (sign_file demo_env security_fs ''game.rom'')) \<and>
   sha512_digest demo_env ''abc'' = ''raw:abc'' \<and>
   security_fs ''game.rom'' = Some (File ''abc'')"
proof -
  have r: "sign_file demo_env security_fs ''game.rom'' =
      (Some ''k1|raw:abc'',
       [Open ''security/keys/rsa_private.pem'', Open ''game.rom'',
        Sign ''raw:abc'' \<lparr>mgf1 = SHA512, salt_length = Salt 64\<rparr> SHA512])"
    by (simp add: sign_file_def try_except_def read_file_def emit_def and_then_Inr ok_def
          from_option_def security_pss_def cfg_salt_length_def Let_def join_def keys_dir_def
          rsa_private_def security_fs_def demo_env_def)
  from signer_parameters [of "''raw:abc''" "\<lparr>mgf1 = SHA512, salt_length = Salt 64\<rparr>" SHA512
      demo_env security_fs "''game.rom''" "''k1|raw:abc''"] r
  show ?thesis
    by (simp add: demo_env_def security_fs_def)
qed

text \<open>
  C9, evaluated on a readable package with the private key in place: \<^verbatim>\<open>verify_package\<close>
  writes the digest files, then fails with \<^verbatim>\<open>TypeError\<close> before it signs; it returns
  \<open>False\<close>, and no \<^verbatim>\<open>.sig\<close> file is written.
\<close>

theorem verify_package_type_error:
  "fst (verify_package demo_env package_fs ''package/dist/a.zip'') = False \<and>
   fst (snd (verify_package demo_env package_fs ''package/dist/a.zip'')) =
     [Print (VerifyingPackage ''package/dist/a.zip''),
      Open ''package/dist/a.zip'', Open ''package/dist/a.zip'',
      Open ''security/keys/private.pem'', Print (ErrVerifyPackage TypeError)] \<and>
   snd (snd (verify_package demo_env package_fs ''package/dist/a.zip''))
     ''package/dist/a.zip.sha256'' = Some (File (''sha256:AAA a.zip'' @ [newline])) \<and>
   snd (snd (verify_package demo_env package_fs ''package/dist/a.zip''))
     ''package/dist/a.zip.sig'' = None"
  by (simp add: verify_package_def package_enabled_def package_signature_def
        package_algorithms_def read_file_def emit_def and_then_Inr and_then_Inl ok_def throw_def
        write_file_def dirname_def basename_def make_signature_def from_option_def
        subscript_def Let_def package_fs_def demo_env_def)

text \<open>
  C10, evaluated on the same package: after \<^verbatim>\<open>verify_package\<close> has run, the distribution
  script's check of that package accepts both digest files and then stops at the missing
  \<^verbatim>\<open>.sig\<close> file; no signature of the packaging stage ever reaches the signature check.
\<close>

theorem packaging_leaves_no_signature:
  "verify_one demo_env
     (snd (snd (verify_package demo_env package_fs ''package/dist/a.zip'')))
     ''package/dist/a.zip'' =
   (Inr (Return False),
    [Print (Verifying ''a.zip''), Open ''package/dist/a.zip.sha256'',
     Open ''package/dist/a.zip'', Open ''package/dist/a.zip.sha512'',
     Open ''package/dist/a.zip'', Print SignatureNotFound])"
  by (simp add: verify_package_def package_enabled_def package_signature_def
        package_algorithms_def read_file_def emit_def and_then_Inr and_then_Inl ok_def throw_def
        write_file_def dirname_def basename_def make_signature_def from_option_def
        subscript_def Let_def package_fs_def demo_env_def
        verify_one_def dist_algorithms_def dist_signature_def check_signature_dist_def
        exists_def first_token_def is_space_def print_then_eq newline_def read_text_def
        str_of_simps)

section \<open>manage\_dist.py: verify\_packages and main\<close>

lemma fst_and_then:
  "fst (and_then m f) = (case fst m of Inl e \<Rightarrow> Inl e | Inr x \<Rightarrow> fst (f x))"
  by (cases m) (auto simp: and_then_def split: sum.splits prod.splits)

lemma snd_and_then:
  "snd (and_then m f) = (case fst m of Inl e \<Rightarrow> snd m | Inr x \<Rightarrow> snd m @ snd (f x))"
  by (cases m) (auto simp: and_then_def split: sum.splits prod.splits)

lemma no_calls_append: "no_calls (l @ l') = (no_calls l \<and> no_calls l')"
  by (simp add: no_calls_def)

lemma quiet_and_then:
  "no_calls (snd m) \<Longrightarrow> (\<And>x. no_calls (snd (f x))) \<Longrightarrow>
     no_calls (snd (and_then m f))"
  by (simp add: snd_and_then no_calls_append split: sum.splits)

lemma quiet_print_then:
  "no_calls (snd k) \<Longrightarrow> no_calls (snd (print_then m k))"
  by (simp add: print_then_eq is_call_def no_calls_def)

lemma quiet_basic:
  "no_calls (snd (ok x))"
  "no_calls (snd (throw e))"
  "no_calls (snd (from_option e v))"
  "no_calls (snd (read_file fs p))"
  "no_calls (snd (read_text env fs p))"
  "no_calls (snd (first_token s))"
  "no_calls (snd (emit (Verify sg m pd al)))"
  by (auto simp: ok_def throw_def from_option_def read_file_def read_text_def first_token_def
        emit_def and_then_def is_call_def no_calls_def Let_def
      split: option.splits node.splits)

lemmas quiet = quiet_and_then quiet_print_then quiet_basic

lemma check_hashes_dist_quiet:
  "no_calls (snd (check_hashes_dist env fs p as eh))"
  by (induction as arbitrary: eh) (auto simp: Let_def intro!: quiet)

lemma check_hashes_dist_result:
  "fst (check_hashes_dist env fs p as eh) \<noteq> Inr (Return True)"
  by (induction as arbitrary: eh)
     (auto simp: Let_def ok_def fst_and_then print_then_eq split: sum.splits)

lemma check_signature_dist_quiet:
  "no_calls (snd (check_signature_dist env fs p eh))"
  by (auto simp: check_signature_dist_def Let_def intro!: quiet split: option.splits)

lemma check_signature_dist_result:
  "fst (check_signature_dist env fs p eh) \<noteq> Inr (Return True)"
  by (auto simp: check_signature_dist_def Let_def ok_def fst_and_then print_then_eq
      split: sum.splits option.splits)

lemma verify_one_quiet: "no_calls (snd (verify_one env fs p))"
  by (auto simp: verify_one_def check_hashes_dist_quiet check_signature_dist_quiet
        intro!: quiet split: flow.splits)

lemma verify_one_result: "fst (verify_one env fs p) \<noteq> Inr (Return True)"
  using check_hashes_dist_result [of env fs p dist_algorithms None]
    check_signature_dist_result [of env fs p]
  by (auto simp: verify_one_def print_then_eq fst_and_then ok_def
      split: sum.splits flow.splits)

lemma verify_paths_quiet: "no_calls (snd (verify_paths env fs ps))"
  by (induction ps) (auto simp: verify_one_quiet intro!: quiet split: flow.splits)

lemma verify_platforms_quiet: "no_calls (snd (verify_platforms env fs pk))"
  by (induction pk) (auto simp: verify_paths_quiet intro!: quiet split: flow.splits)

lemma verify_platforms_concat:
  "verify_platforms env fs pk = verify_paths env fs (concat (map snd pk))"
proof (induction pk)
  case Nil
  then show ?case by simp
next
  case (Cons x pk)
  have app: "verify_paths env fs (ps @ qs) =
      and_then (verify_paths env fs ps) (\<lambda>r. case r of Return b \<Rightarrow> ok (Return b)
         | Continue _ \<Rightarrow> verify_paths env fs qs)" for ps qs
  proof (induction ps)
    case Nil
    then show ?case by (simp add: and_then_ok)
  next
    case (Cons p ps)
    then show ?case
      by (cases "verify_one env fs p")
         (auto simp: and_then_def ok_def split: sum.splits prod.splits flow.splits)
  qed
  from Cons show ?case
    by (cases x) (simp add: app)
qed

text \<open>The loop stops at the first path whose check does not run to its end.\<close>

lemma verify_paths_first_failure:
  assumes "\<forall>q\<in>set pre. fst (verify_one env fs q) = Inr (Continue ())"
    and "fst (verify_one env fs p) \<noteq> Inr (Continue ())"
  shows "verify_paths env fs (pre @ p # post) =
     (fst (verify_one env fs p),
      concat (map (\<lambda>q. snd (verify_one env fs q)) pre) @ snd (verify_one env fs p))"
  using assms(1)
proof (induction pre)
  case Nil
  from assms(2) verify_one_result [of env fs p] show ?case
    by (cases "verify_one env fs p")
       (auto simp: and_then_def ok_def split: sum.splits flow.splits)
next
  case (Cons q pre)
  then show ?case
    by (cases "verify_one env fs q") (auto simp: and_then_def split: prod.splits)
qed

lemma verify_packages_first_failure:
  assumes "concat (map snd packages) = pre @ p # post"
    and "\<forall>q\<in>set pre. fst (verify_one env fs q) = Inr (Continue ())"
    and "fst (verify_one env fs p) \<noteq> Inr (Continue ())"
  shows "verify_packages env fs packages =
     (False,
      Print VerifyingPackages # concat (map (\<lambda>q. snd (verify_one env fs q)) pre) @
      snd (verify_one env fs p) @
      (case fst (verify_one env fs p) of Inl e \<Rightarrow> [Print (ErrVerifyPackages e)] | Inr r \<Rightarrow> []))"
proof -
  have "verify_platforms env fs packages =
     (fst (verify_one env fs p),
      concat (map (\<lambda>q. snd (verify_one env fs q)) pre) @ snd (verify_one env fs p))"
    using verify_paths_first_failure [OF assms(2,3)] assms(1)
    by (simp add: verify_platforms_concat)
  with assms(3) verify_one_result [of env fs p] show ?thesis
    by (cases "fst (verify_one env fs p)")
       (auto simp: verify_packages_def dist_enabled_def print_then_eq try_except_def
          and_then_Inr and_then_Inl ok_def split: flow.splits)
qed

lemma verify_packages_quiet: "no_calls (snd (verify_packages env fs packages))"
proof -
  have "no_calls (snd (print_then VerifyingPackages
            (and_then (verify_platforms env fs packages) (\<lambda>r.
               case r of
                 Return b \<Rightarrow> ok b
               | Continue _ \<Rightarrow> print_then AllPackagesVerified (ok True)))))"
    by (auto simp: verify_platforms_quiet intro!: quiet split: flow.splits)
  then show ?thesis
    by (auto simp: verify_packages_def dist_enabled_def try_except_def is_call_def
        no_calls_def split: prod.splits sum.splits)
qed

lemma split_first:
  "\<exists>x\<in>set xs. P x \<Longrightarrow> \<exists>pre x post. xs = pre @ x # post \<and> P x \<and> (\<forall>y\<in>set pre. \<not> P y)"
  by (metis split_list_first_prop)

lemma verify_packages_blocks:
  assumes "p \<in> set (concat (map snd packages))"
    and "fst (verify_one env fs p) \<noteq> Inr (Continue ())"
  shows "fst (verify_packages env fs packages) = False"
proof -
  from assms obtain pre q post where
    "concat (map snd packages) = pre @ q # post"
    "fst (verify_one env fs q) \<noteq> Inr (Continue ())"
    "\<forall>y\<in>set pre. \<not> fst (verify_one env fs y) \<noteq> Inr (Continue ())"
    using split_first [of "concat (map snd packages)" "\<lambda>x. fst (verify_one env fs x) \<noteq> Inr (Continue ())"]
    by blast
  then show ?thesis
    using verify_packages_first_failure [of packages pre q post env fs] by simp
qed

text \<open>
  C2. If the check of any artifact of the batch does not succeed (it returns \<open>False\<close> or
  raises), \<^verbatim>\<open>verify_packages\<close> returns \<open>False\<close>; \<^verbatim>\<open>main\<close> then exits with code 1, and its
  events hold no call of any publish function, whatever the platform argument.
\<close>

theorem gate_blocks_without_publishing:
  assumes "p \<in> set (concat (map snd packages))"
    and "fst (verify_one env fs p) \<noteq> Inr (Continue ())"
  shows "fst (verify_packages env fs packages) = False \<and>
         (fst (collect_packages env fs) = packages \<longrightarrow>
            fst (main_dist env fs platform) = 1 \<and>
            no_calls (snd (main_dist env fs platform)))"
proof -
  have b: "fst (verify_packages env fs packages) = False"
    using verify_packages_blocks [OF assms] .
  have q: "no_calls (snd (verify_packages env fs packages))"
    by (rule verify_packages_quiet)
  from b q show ?thesis
    by (cases "verify_packages env fs packages")
       (auto simp: main_dist_def collect_packages_def is_call_def no_calls_def
          split: prod.splits)
qed

text \<open>The three packages of \<open>dist_fs\<close>, checked one by one.\<close>

lemmas dist_eval =
  verify_one_def dist_algorithms_def dist_signature_def check_signature_dist_def
  exists_def first_token_def is_space_def print_then_eq newline_def read_file_def emit_def
  and_then_Inr and_then_Inl ok_def throw_def from_option_def Let_def basename_def
  dist_pss_def demo_env_def dist_fs_def read_text_def str_of_simps

lemma demo_collect:
  "fst (collect_packages demo_env dist_fs) =
     [(''windows'', [''package/dist/a.zip'', ''package/dist/b.zip'', ''package/dist/c.zip'']),
      (''linux'', []), (''macos'', [])]"
  by (simp add: collect_packages_def dist_packages_def demo_env_def isfile_def dist_fs_def)


lemma demo_verify_b:
  "verify_one demo_env dist_fs ''package/dist/b.zip'' =
     (Inr (Return False),
      [Print (Verifying ''b.zip''), Open ''package/dist/b.zip.sha256'',
       Open ''package/dist/b.zip'', Print (HashInvalid ''sha256'')])"
  by (simp add: dist_eval)


theorem gate_blocks_without_publishing_witness:
  "''package/dist/b.zip'' \<in> set (concat (map snd (fst (collect_packages demo_env dist_fs)))) \<and>
   fst (verify_one demo_env dist_fs ''package/dist/b.zip'') \<noteq> Inr (Continue ()) \<and>
   fst (verify_packages demo_env dist_fs (fst (collect_packages demo_env dist_fs))) = False \<and>
   fst (main_dist demo_env dist_fs ''all'') = 1 \<and>
   no_calls (snd (main_dist demo_env dist_fs ''all''))"
proof -
  have h1: "''package/dist/b.zip'' \<in>
      set (concat (map snd (fst (collect_packages demo_env dist_fs))))"
    by (simp add: demo_collect)
  have h2: "fst (verify_one demo_env dist_fs ''package/dist/b.zip'') \<noteq> Inr (Continue ())"
    by (simp add: demo_verify_b)
  from gate_blocks_without_publishing [OF h1 h2, of "''all''"] h1 h2
  show ?thesis by simp
qed





section \<open>manage\_dist.py: the order of the digest checks\<close>

lemma check_hashes_dist_step_match:
  "fs p = Some (File c) \<Longrightarrow> fs (p @ ''.'' @ b) = Some (File raw) \<Longrightarrow>
   decode env raw = Some tx \<Longrightarrow> first_token tx = ok (str_of (hexdigest env b c)) \<Longrightarrow>
   check_hashes_dist env fs p (b # as) eh =
     (fst (check_hashes_dist env fs p as (Some (str_of (hexdigest env b c)))),
      [Open (p @ ''.'' @ b), Open p] @
      snd (check_hashes_dist env fs p as (Some (str_of (hexdigest env b c)))))"
  by (simp add: Let_def exists_def read_text_File read_file_File and_then_Inr ok_def)

lemma check_hashes_dist_step_mismatch:
  "fs p = Some (File c) \<Longrightarrow> fs (p @ ''.'' @ a) = Some (File raw) \<Longrightarrow>
   decode env raw = Some tx \<Longrightarrow> first_token tx = ok t \<Longrightarrow>
   t \<noteq> str_of (hexdigest env a c) \<Longrightarrow>
   check_hashes_dist env fs p (a # as) eh =
     (Inr (Return False), [Open (p @ ''.'' @ a), Open p, Print (HashInvalid a)])"
  by (auto simp: Let_def exists_def read_text_File read_file_File and_then_Inr ok_def
        print_then_eq)

lemma check_hashes_dist_first_mismatch:
  assumes "fs p = Some (File c)"
    and "\<forall>b\<in>set pre. \<exists>raw tx. fs (p @ ''.'' @ b) = Some (File raw) \<and>
            decode env raw = Some tx \<and> first_token tx = ok (str_of (hexdigest env b c))"
    and "fs (p @ ''.'' @ a) = Some (File raw)" "decode env raw = Some tx"
      "first_token tx = ok t" "t \<noteq> str_of (hexdigest env a c)"
  shows "check_hashes_dist env fs p (pre @ a # post) eh =
     (Inr (Return False),
      concat (map (\<lambda>b. [Open (p @ ''.'' @ b), Open p]) pre) @
      [Open (p @ ''.'' @ a), Open p, Print (HashInvalid a)])"
  using assms(2)
proof (induction pre arbitrary: eh)
  case Nil
  show ?case
    using check_hashes_dist_step_mismatch [OF assms(1,3,4,5,6), of post eh] by simp
next
  case (Cons b pre)
  then obtain rb tb where tb: "fs (p @ ''.'' @ b) = Some (File rb)"
    "decode env rb = Some tb" "first_token tb = ok (str_of (hexdigest env b c))"
    by auto
  from Cons have ih:
    "check_hashes_dist env fs p (pre @ a # post) (Some (str_of (hexdigest env b c))) =
     (Inr (Return False),
      concat (map (\<lambda>b. [Open (p @ ''.'' @ b), Open p]) pre) @
      [Open (p @ ''.'' @ a), Open p, Print (HashInvalid a)])"
    by simp
  show ?case
    using check_hashes_dist_step_match [OF assms(1) tb, of "pre @ a # post" eh] ih
    by simp
qed

lemma verify_one_first_mismatch:
  assumes "fs p = Some (File c)"
    and "dist_algorithms = pre @ a # post"
    and "\<forall>b\<in>set pre. \<exists>raw tx. fs (p @ ''.'' @ b) = Some (File raw) \<and>
            decode env raw = Some tx \<and> first_token tx = ok (str_of (hexdigest env b c))"
    and "fs (p @ ''.'' @ a) = Some (File raw)" "decode env raw = Some tx"
      "first_token tx = ok t" "t \<noteq> str_of (hexdigest env a c)"
  shows "verify_one env fs p =
     (Inr (Return False),
      Print (Verifying (basename p)) #
      concat (map (\<lambda>b. [Open (p @ ''.'' @ b), Open p]) pre) @
      [Open (p @ ''.'' @ a), Open p, Print (HashInvalid a)])"
  unfolding verify_one_def assms(2)
  by (simp add: check_hashes_dist_first_mismatch [OF assms(1,3,4,5,6,7)] print_then_eq
        and_then_Inr ok_def)

text \<open>
  The signature check of the distribution script is made on the encoded text of the last
  digest file read, the one of sha512, which equals the recomputed digest there, with MGF1
  over SHA-256 and the maximal salt length. The sign call written in the packaging script
  names the sha256 text instead.
\<close>

lemma check_hashes_dist_last:
  "check_hashes_dist env fs p as eh = (Inr (Continue r), l) \<Longrightarrow>
   (as = [] \<and> r = eh) \<or>
   (as \<noteq> [] \<and> (\<exists>c. fs p = Some (File c) \<and> r = Some (str_of (hexdigest env (last as) c))))"
proof (induction as arbitrary: eh l)
  case Nil
  then show ?case by (simp add: ok_def)
next
  case (Cons a as)
  from Cons.prems obtain c l' where
    c: "fs p = Some (File c)"
    and r: "check_hashes_dist env fs p as (Some (str_of (hexdigest env a c))) =
        (Inr (Continue r), l')"
    by (auto simp: Let_def print_then_eq ok_def read_file_def read_text_def emit_def
          and_then_def throw_def first_token_def from_option_def
        split: if_splits option.splits node.splits prod.splits sum.splits)
  from Cons.IH [OF r] c show ?case
    by (cases as) auto
qed

lemma verify_one_signed_text:
  assumes "Verify sg m padding alg \<in> set (snd (verify_one env fs p))"
  shows "(\<exists>c. fs p = Some (File c) \<and>
            encode env (str_of (hexdigest env ''sha512'' c)) = Some m) \<and>
     padding = \<lparr>mgf1 = SHA256, salt_length = MAX_LENGTH\<rparr> \<and> alg = SHA256"
proof -
  obtain r l where h: "check_hashes_dist env fs p dist_algorithms None = (r, l)"
    by (cases "check_hashes_dist env fs p dist_algorithms None") auto
  have nl: "Verify sg m padding alg \<notin> set l'"
    if "check_hashes_dist env fs p as eh = (r', l')" for as eh r' l'
    using that
  proof (induction as arbitrary: eh r' l')
    case Nil
    then show ?case by (auto simp: ok_def)
  next
    case (Cons a as)
    then show ?case
      by (fastforce simp: Let_def print_then_eq ok_def read_file_def read_text_def emit_def
            and_then_def throw_def first_token_def from_option_def
          split: if_splits option.splits node.splits prod.splits sum.splits)
  qed
  from nl [OF h] have l: "Verify sg m padding alg \<notin> set l" .
  show ?thesis
  proof (cases r)
    case (Inl e)
    with assms h l show ?thesis
      by (simp add: verify_one_def print_then_eq and_then_Inl)
  next
    case (Inr f)
    show ?thesis
    proof (cases f)
      case (Return b)
      with assms h l Inr show ?thesis
        by (simp add: verify_one_def print_then_eq and_then_Inr ok_def)
    next
      case (Continue eh)
      with h Inr check_hashes_dist_last [of env fs p dist_algorithms None eh l]
      obtain c where c: "fs p = Some (File c)"
        "eh = Some (str_of (hexdigest env ''sha512'' c))"
        by (auto simp: dist_algorithms_def)
      from assms h l Inr Continue c show ?thesis
        by (auto simp: verify_one_def print_then_eq and_then_Inr dist_signature_def
              check_signature_dist_def Let_def ok_def read_file_def read_text_def emit_def
              and_then_def throw_def from_option_def dist_pss_def
            split: if_splits option.splits node.splits prod.splits sum.splits)
    qed
  qed
qed

section \<open>manage\_security.py: verify\_file\<close>

lemma calculate_hashes_File:
  "fs p = Some (File c) \<Longrightarrow>
   calculate_hashes env fs p =
     ([(''sha256'', hexdigest env ''sha256'' c), (''sha512'', hexdigest env ''sha512'' c)],
      [Open p, Open p])"
  by (simp add: calculate_hashes_def algorithms_def try_except_def read_file_File and_then_Inr
        ok_def)

lemma py_in_JObj: "map_of saved a = Some v \<Longrightarrow> py_in a (JObj saved) = ok True"
  by (force simp: py_in_def ok_def dest!: map_of_SomeD)

lemma compare_step_match:
  "map_of saved a = Some (JStr h) \<Longrightarrow> map_of current a = Some h \<Longrightarrow>
   compare_hashes (JObj saved) current (a # as) = compare_hashes (JObj saved) current as"
  by (simp add: py_in_JObj and_then_ok py_getitem_def dict_getitem_def from_option_def)

lemma compare_step_mismatch:
  "map_of saved a = Some v \<Longrightarrow> map_of current a = Some h \<Longrightarrow> v \<noteq> JStr h \<Longrightarrow>
   compare_hashes (JObj saved) current (a # as) = (Inr (Some False), [Print (HashInvalid a)])"
  by (simp add: py_in_JObj and_then_ok py_getitem_def dict_getitem_def from_option_def
        print_then_eq) (simp add: ok_def)

lemma compare_hashes_first_mismatch:
  assumes "\<forall>b\<in>set pre. \<exists>h. map_of current b = Some h \<and> map_of saved b = Some (JStr h)"
    and "map_of saved a = Some v" "map_of current a = Some h" "v \<noteq> JStr h"
  shows "compare_hashes (JObj saved) current (pre @ a # post) =
     (Inr (Some False), [Print (HashInvalid a)])"
  using assms(1)
proof (induction pre)
  case Nil
  show ?case
    using compare_step_mismatch [OF assms(2-4), of post] by simp
next
  case (Cons b pre)
  then obtain hb where "map_of current b = Some hb" "map_of saved b = Some (JStr hb)"
    by auto
  with Cons show ?case
    by (simp add: compare_step_match del: compare_hashes.simps)
qed

lemma compare_hashes_all_match:
  "\<forall>b\<in>set as. \<exists>h. map_of current b = Some h \<and> map_of saved b = Some (JStr h) \<Longrightarrow>
   compare_hashes (JObj saved) current as = (Inr None, [])"
proof (induction as)
  case Nil
  then show ?case by (simp add: ok_def)
next
  case (Cons b as)
  then obtain hb where "map_of current b = Some hb" "map_of saved b = Some (JStr hb)"
    by auto
  with Cons show ?case
    by (simp add: compare_step_match del: compare_hashes.simps)
qed

lemma current_lookup:
  "b \<in> set algorithms \<Longrightarrow>
   map_of [(''sha256'', hexdigest env ''sha256'' c), (''sha512'', hexdigest env ''sha512'' c)] b
     = Some (hexdigest env b c)"
  by (auto simp: algorithms_def)

lemma verify_hashes_first_mismatch:
  assumes "fs (join hashes_dir (basename p @ ''.json'')) = Some (File text)"
    "json_load env text = Some (JObj saved)"
    "fs p = Some (File c)"
    "algorithms = pre @ a # post"
    "\<forall>b\<in>set pre. map_of saved b = Some (JStr (hexdigest env b c))"
    "map_of saved a = Some v" "v \<noteq> JStr (hexdigest env a c)"
  shows "verify_hashes env fs p =
     (Inr (Some False),
      [Open (join hashes_dir (basename p @ ''.json'')), Open p, Open p, Print (HashInvalid a)])"
proof -
  let ?cur = "[(''sha256'', hexdigest env ''sha256'' c), (''sha512'', hexdigest env ''sha512'' c)]"
  have sub: "b \<in> set algorithms" if "b \<in> set pre \<or> b = a" for b
    using that unfolding assms(4) by auto
  have pre: "\<forall>b\<in>set pre. \<exists>h. map_of ?cur b = Some h \<and> map_of saved b = Some (JStr h)"
    using assms(5) current_lookup [OF sub, of _ env c] by blast
  have a: "map_of ?cur a = Some (hexdigest env a c)"
    using current_lookup [OF sub, of a env c] by blast
  have "compare_hashes (JObj saved) ?cur algorithms = (Inr (Some False), [Print (HashInvalid a)])"
    unfolding assms(4)
    by (rule compare_hashes_first_mismatch [OF pre assms(6) a assms(7)])
  then show ?thesis
    using assms(1,2,3)
    by (simp add: verify_hashes_def Let_def exists_def read_file_File and_then_Inr
          from_option_def ok_def calculate_hashes_File)
qed

lemma verify_hashes_match:
  assumes "fs (join hashes_dir (basename p @ ''.json'')) = Some (File text)"
    "json_load env text = Some (JObj saved)"
    "fs p = Some (File c)"
    "\<forall>b\<in>set algorithms. map_of saved b = Some (JStr (hexdigest env b c))"
  shows "verify_hashes env fs p =
     (Inr None, [Open (join hashes_dir (basename p @ ''.json'')), Open p, Open p])"
proof -
  let ?cur = "[(''sha256'', hexdigest env ''sha256'' c), (''sha512'', hexdigest env ''sha512'' c)]"
  have "\<forall>b\<in>set algorithms. \<exists>h. map_of ?cur b = Some h \<and> map_of saved b = Some (JStr h)"
    using assms(4) current_lookup [of _ env c] by blast
  then have "compare_hashes (JObj saved) ?cur algorithms = (Inr None, [])"
    by (rule compare_hashes_all_match)
  then show ?thesis
    using assms(1,2,3)
    by (simp add: verify_hashes_def Let_def exists_def read_file_File and_then_Inr
          from_option_def ok_def calculate_hashes_File)
qed

lemma verify_file_listed:
  "list_ex (endswith p) extensions \<Longrightarrow>
   verify_file env fs p =
     try_except
       (print_then (VerifyingFile p)
          (and_then (verify_hashes env fs p) (\<lambda>r.
             case r of
               Some b \<Rightarrow> ok b
             | None \<Rightarrow>
                 and_then (verify_signature env fs p)
                   (\<lambda>r. case r of
                      Some b \<Rightarrow> ok b
                    | None \<Rightarrow> print_then FileVerified (ok True)))))
       ErrVerifyFile False"
  by (simp add: verify_file_def check_hashes_def check_signatures_def)

lemma verify_file_first_mismatch:
  assumes "list_ex (endswith p) extensions"
    "fs (join hashes_dir (basename p @ ''.json'')) = Some (File text)"
    "json_load env text = Some (JObj saved)"
    "fs p = Some (File c)"
    "algorithms = pre @ a # post"
    "\<forall>b\<in>set pre. map_of saved b = Some (JStr (hexdigest env b c))"
    "map_of saved a = Some v" "v \<noteq> JStr (hexdigest env a c)"
  shows "verify_file env fs p =
     (False,
      [Print (VerifyingFile p), Open (join hashes_dir (basename p @ ''.json'')), Open p, Open p,
       Print (HashInvalid a)])"
  by (simp add: verify_file_listed [OF assms(1)] verify_hashes_first_mismatch [OF assms(2-8)]
        print_then_eq and_then_Inr try_except_def ok_def)

lemma verify_file_no_hash_file:
  assumes "list_ex (endswith p) extensions"
    "\<not> exists fs (join hashes_dir (basename p @ ''.json''))"
  shows "verify_file env fs p = (False, [Print (VerifyingFile p), Print HashFileNotFound])"
  using assms(2)
  by (simp add: verify_file_listed [OF assms(1)] verify_hashes_def Let_def
        print_then_eq and_then_Inr try_except_def ok_def)

lemma verify_file_no_sig_file:
  assumes "list_ex (endswith p) extensions"
    "verify_hashes env fs p = (Inr None, l)"
    "fs (join keys_dir rsa_public) = Some (File pem)"
    "load_pem_public_key env pem = Some pk"
    "\<not> exists fs (join signatures_dir (basename p @ ''.sig''))"
  shows "verify_file env fs p =
     (False, Print (VerifyingFile p) # l @ [Open (join keys_dir rsa_public),
        Print SignatureFileNotFound])"
  using assms(2-5)
  by (simp add: verify_file_listed [OF assms(1)] verify_signature_def Let_def
        print_then_eq and_then_Inr try_except_def ok_def read_file_File from_option_def)

lemma verify_file_valid:
  assumes "verify_hashes env fs p = (Inr None, l)"
    "fs (join keys_dir rsa_public) = Some (File pem)"
    "load_pem_public_key env pem = Some pk"
    "fs (join signatures_dir (basename p @ ''.sig'')) = Some (File s)"
    "fs p = Some (File c)"
    "rsa_verify env pk s (sha512_digest env c) security_pss SHA512"
  shows "fst (verify_file env fs p) = True"
proof (cases "list_ex (endswith p) extensions")
  case True
  from assms show ?thesis
    by (simp add: verify_file_listed [OF True] verify_signature_def Let_def exists_def
        print_then_eq and_then_Inr try_except_def ok_def read_file_File from_option_def emit_def)
next
  case False
  then show ?thesis
    by (simp add: verify_file_def try_except_def ok_def)
qed

section \<open>Paths of the stored digests and signatures\<close>

lemma basename_no_slash: "CHR ''/'' \<notin> set (basename p)"
  by (auto simp: basename_def dest: set_takeWhileD)

lemma basename_slash:
  assumes "CHR ''/'' \<notin> set b"
  shows "basename (d @ CHR ''/'' # b) = b"
proof -
  have "takeWhile (\<lambda>c. c \<noteq> CHR ''/'') (rev b @ CHR ''/'' # rev d) =
      rev b @ takeWhile (\<lambda>c. c \<noteq> CHR ''/'') (CHR ''/'' # rev d)"
    using assms by (intro takeWhile_append2) auto
  then show ?thesis by (simp add: basename_def)
qed

lemma dirname_slash:
  assumes "CHR ''/'' \<notin> set b" "y \<noteq> CHR ''/''"
  shows "dirname ((ys @ [y]) @ CHR ''/'' # b) = ys @ [y]"
proof -
  have "dropWhile (\<lambda>c. c \<noteq> CHR ''/'') (rev b @ CHR ''/'' # y # rev ys) =
      dropWhile (\<lambda>c. c \<noteq> CHR ''/'') (CHR ''/'' # y # rev ys)"
    using assms(1) by (intro dropWhile_append2) auto
  then have h: "rev (dropWhile (\<lambda>c. c \<noteq> CHR ''/'') (rev ((ys @ [y]) @ CHR ''/'' # b))) =
      ys @ [y, CHR ''/'']"
    by simp
  show ?thesis
    unfolding dirname_def h using assms(2) by (simp add: Let_def)
qed

lemma join_slash:
  "CHR ''/'' \<notin> set b \<Longrightarrow> a \<noteq> [] \<Longrightarrow> last a \<noteq> CHR ''/'' \<Longrightarrow> join a b = a @ CHR ''/'' # b"
  by (cases b) (auto simp: join_def)

lemma hash_path_eq:
  "join hashes_dir (basename p @ ''.json'') = ''security/hashes/'' @ basename p @ ''.json''"
  using join_slash [of "basename p @ ''.json''" hashes_dir] basename_no_slash [of p]
  by (simp add: hashes_dir_def)

lemma sig_path_eq:
  "join signatures_dir (basename p @ ''.sig'') = ''security/signatures/'' @ basename p @ ''.sig''"
  using join_slash [of "basename p @ ''.sig''" signatures_dir] basename_no_slash [of p]
  by (simp add: signatures_dir_def)

lemma hash_path_dirname:
  "dirname (join hashes_dir (basename p @ ''.json'')) = hashes_dir"
  unfolding hash_path_eq
  using dirname_slash [of "basename p @ ''.json''" "CHR ''s''" "''security/hashe''"]
    basename_no_slash [of p]
  by (simp add: hashes_dir_def)

lemma sig_path_dirname:
  "dirname (join signatures_dir (basename p @ ''.sig'')) = signatures_dir"
  unfolding sig_path_eq
  using dirname_slash [of "basename p @ ''.sig''" "CHR ''s''" "''security/signature''"]
    basename_no_slash [of p]
  by (simp add: signatures_dir_def)

lemma hash_path_not_artifact: "join hashes_dir (basename p @ ''.json'') \<noteq> p"
proof
  assume e: "join hashes_dir (basename p @ ''.json'') = p"
  have "basename (''security/hashes'' @ CHR ''/'' # (basename p @ ''.json'')) = basename p @ ''.json''"
    using basename_no_slash [of p] by (intro basename_slash) simp
  then have "basename (join hashes_dir (basename p @ ''.json'')) = basename p @ ''.json''"
    by (simp add: hash_path_eq)
  then show False unfolding e by simp
qed

lemma sig_path_not_artifact: "join signatures_dir (basename p @ ''.sig'') \<noteq> p"
proof
  assume e: "join signatures_dir (basename p @ ''.sig'') = p"
  have "basename (''security/signatures'' @ CHR ''/'' # (basename p @ ''.sig'')) = basename p @ ''.sig''"
    using basename_no_slash [of p] by (intro basename_slash) simp
  then have "basename (join signatures_dir (basename p @ ''.sig'')) = basename p @ ''.sig''"
    by (simp add: sig_path_eq)
  then show False unfolding e by simp
qed

lemma write_file_ok:
  "fs p \<noteq> Some Dir \<Longrightarrow> fs p \<noteq> Some Denied \<Longrightarrow> fs (dirname p) = Some Dir \<Longrightarrow>
   write_file fs p c = Inr (fs(p \<mapsto> File c))"
  by (auto simp: write_file_def split: option.splits node.splits)


text \<open>
  C1. Take an artifact that can be read, the key pair in \<^verbatim>\<open>security/keys\<close>, and the two
  directories for digests and signatures. Assume of the libraries that signing the
  artifact's digest succeeds with a non-empty signature, that the public key verifies
  this signature of the digest (the keys match), and that \<^verbatim>\<open>json.load\<close> reads back the dict that
  \<^verbatim>\<open>json.dump\<close> wrote. Then the commands \<^verbatim>\<open>hash\<close> and \<^verbatim>\<open>sign\<close> both exit with code 0,
  they leave the artifact as it was, and \<^verbatim>\<open>verify_file\<close> on the result returns \<open>True\<close>:
  the \<^verbatim>\<open>verify\<close> command exits with code 0.
\<close>

theorem sign_verify_roundtrip:
  assumes art: "fs p = Some (File c)"
    and priv: "fs (join keys_dir rsa_private) = Some (File spem)"
      "load_pem_private_key env spem = Some sk"
    and pub: "fs (join keys_dir rsa_public) = Some (File ppem)"
      "load_pem_public_key env ppem = Some pk"
    and sign: "rsa_sign env sk (sha512_digest env c) security_pss SHA512 = Some s" "s \<noteq> []"
    and pair: "rsa_verify env pk s (sha512_digest env c) security_pss SHA512"
    and json: "json_load env
        (json_dump env [(''sha256'', hexdigest env ''sha256'' c),
                        (''sha512'', hexdigest env ''sha512'' c)]) =
        Some (JObj [(''sha256'', JStr (hexdigest env ''sha256'' c)),
                    (''sha512'', JStr (hexdigest env ''sha512'' c))])"
    and dirs: "fs hashes_dir = Some Dir" "fs signatures_dir = Some Dir"
    and hfree: "fs (join hashes_dir (basename p @ ''.json'')) \<noteq> Some Dir"
      "fs (join hashes_dir (basename p @ ''.json'')) \<noteq> Some Denied"
    and sfree: "fs (join signatures_dir (basename p @ ''.sig'')) \<noteq> Some Dir"
      "fs (join signatures_dir (basename p @ ''.sig'')) \<noteq> Some Denied"
  shows "\<exists>l1 fs1 l2 fs2.
     main_security env fs CmdHash p = (0, l1, fs1) \<and>
     main_security env fs1 CmdSign p = (0, l2, fs2) \<and>
     fs2 p = Some (File c) \<and>
     fst (verify_file env fs2 p) = True \<and>
     fst (main_security env fs2 CmdVerify p) = 0"
proof -
  define hp where "hp = join hashes_dir (basename p @ ''.json'')"
  define sp where "sp = join signatures_dir (basename p @ ''.sig'')"
  define kp where "kp = join keys_dir rsa_private"
  define pp where "pp = join keys_dir rsa_public"
  define d where "d = [(''sha256'', hexdigest env ''sha256'' c),
                        (''sha512'', hexdigest env ''sha512'' c)]"
  define fs1 where "fs1 = fs(hp \<mapsto> File (json_dump env d))"
  define fs2 where "fs2 = fs1(sp \<mapsto> File s)"
  have hp: "hp = ''security/hashes/'' @ basename p @ ''.json''"
    by (simp add: hp_def hash_path_eq)
  have sp: "sp = ''security/signatures/'' @ basename p @ ''.sig''"
    by (simp add: sp_def sig_path_eq)
  have kp: "kp = ''security/keys/rsa_private.pem''"
    by (simp add: kp_def join_def keys_dir_def rsa_private_def)
  have pp: "pp = ''security/keys/rsa_public.pem''"
    by (simp add: pp_def join_def keys_dir_def rsa_public_def)
  have ne: "hp \<noteq> p" "sp \<noteq> p"
    by (simp_all add: hp_def sp_def hash_path_not_artifact sig_path_not_artifact)
  have ne2: "hp \<noteq> sp" "hp \<noteq> kp" "hp \<noteq> pp" "sp \<noteq> kp" "sp \<noteq> pp"
    "hp \<noteq> signatures_dir"
    by (simp_all add: hp sp kp pp signatures_dir_def)
  have isf: "isfile fs p" "isfile fs1 p" "isfile fs2 p"
    using art ne by (simp_all add: isfile_def fs1_def fs2_def)
  have ch: "calculate_hashes env fs p = (d, [Open p, Open p])"
    using calculate_hashes_File [of fs p c env] art by (simp add: d_def)
  have w1: "write_file fs hp (json_dump env d) = Inr fs1"
    unfolding fs1_def
    using hfree dirs(1) by (intro write_file_ok) (simp_all add: hp_def hash_path_dirname)
  have m1: "main_security env fs CmdHash p = (0, [Open p, Open p, Print (HashesSaved hp)], fs1)"
    using isf(1) ch w1 by (simp add: main_security_def Let_def hp_def [symmetric] d_def)
  have f1: "fs1 p = Some (File c)" "fs1 kp = Some (File spem)" "fs1 pp = Some (File ppem)"
    using art priv(1) pub(1) ne ne2 by (simp_all add: fs1_def kp_def pp_def)
  have sf: "sign_file env fs1 p =
      (Some s, [Open kp, Open p,
        Sign (sha512_digest env c) \<lparr>mgf1 = SHA512, salt_length = Salt 64\<rparr> SHA512])"
    unfolding kp_def
    using f1(1,2) priv(2) sign(1)
    by (intro sign_file_succeeds) (simp_all add: kp_def security_pss_def cfg_salt_length_def)
  have w2: "write_file fs1 sp s = Inr fs2"
    unfolding fs2_def
    using sfree dirs(2) ne2
    by (intro write_file_ok)
       (simp_all add: fs1_def sp_def [symmetric] sig_path_dirname [of p, folded sp_def])
  have m2: "\<exists>l2. main_security env fs1 CmdSign p = (0, l2, fs2)"
    using isf(2) sf w2 sign(2) by (simp add: main_security_def Let_def sp_def [symmetric])
  have f2: "fs2 p = Some (File c)" "fs2 pp = Some (File ppem)"
    "fs2 hp = Some (File (json_dump env d))" "fs2 sp = Some (File s)"
    using f1 ne ne2 by (simp_all add: fs2_def fs1_def)
  have vh: "verify_hashes env fs2 p = (Inr None, [Open hp, Open p, Open p])"
    unfolding hp_def
    using f2(3) json f2(1)
    by (intro verify_hashes_match [where saved = "[(''sha256'', JStr (hexdigest env ''sha256'' c)),
                    (''sha512'', JStr (hexdigest env ''sha512'' c))]"])
       (auto simp: hp_def d_def algorithms_def)
  have rv: "rsa_verify env pk s (sha512_digest env c) security_pss SHA512"
    by (rule pair)
  have v: "fst (verify_file env fs2 p) = True"
    using vh f2 pub(2) rv
    by (intro verify_file_valid [where s = s and c = c and pem = ppem and pk = pk])
       (simp_all add: pp_def sp_def)
  then have m3: "fst (main_security env fs2 CmdVerify p) = 0"
    using isf(3) by (cases "verify_file env fs2 p") (simp add: main_security_def)
  from m1 m2 f2(1) v m3 show ?thesis by blast
qed

lemmas security_eval =
  join_def keys_dir_def rsa_private_def rsa_public_def hashes_dir_def signatures_dir_def
  basename_def security_fs_def demo_env_def security_pss_def cfg_salt_length_def

theorem sign_verify_roundtrip_witness:
  "security_fs ''game.rom'' = Some (File ''abc'') \<and>
   load_pem_private_key demo_env ''PRIVATE'' = Some ''k1'' \<and>
   load_pem_public_key demo_env ''PUBLIC'' = Some ''k1'' \<and>
   rsa_sign demo_env ''k1'' (sha512_digest demo_env ''abc'') security_pss SHA512
     = Some ''k1|raw:abc'' \<and>
   rsa_verify demo_env ''k1'' ''k1|raw:abc'' (sha512_digest demo_env ''abc'') security_pss SHA512 \<and>
   (\<exists>l1 fs1 l2 fs2.
      main_security demo_env security_fs CmdHash ''game.rom'' = (0, l1, fs1) \<and>
      main_security demo_env fs1 CmdSign ''game.rom'' = (0, l2, fs2) \<and>
      fs2 ''game.rom'' = Some (File ''abc'') \<and>
      fst (verify_file demo_env fs2 ''game.rom'') = True \<and>
      fst (main_security demo_env fs2 CmdVerify ''game.rom'') = 0)"
proof -
  have art: "security_fs ''game.rom'' = Some (File ''abc'')"
    by (simp add: security_fs_def)
  have priv: "security_fs (join keys_dir rsa_private) = Some (File ''PRIVATE'')"
    "load_pem_private_key demo_env ''PRIVATE'' = Some ''k1''"
    by (simp_all add: security_eval)
  have pub: "security_fs (join keys_dir rsa_public) = Some (File ''PUBLIC'')"
    "load_pem_public_key demo_env ''PUBLIC'' = Some ''k1''"
    by (simp_all add: security_eval)
  have sign: "rsa_sign demo_env ''k1'' (sha512_digest demo_env ''abc'') security_pss SHA512
     = Some ''k1|raw:abc''" "''k1|raw:abc'' \<noteq> []"
    by (simp_all add: security_eval)
  have pair: "rsa_verify demo_env ''k1'' ''k1|raw:abc'' (sha512_digest demo_env ''abc'')
      security_pss SHA512"
    by (simp add: demo_env_def)
  have json: "json_load demo_env
        (json_dump demo_env [(''sha256'', hexdigest demo_env ''sha256'' ''abc''),
                        (''sha512'', hexdigest demo_env ''sha512'' ''abc'')]) =
        Some (JObj [(''sha256'', JStr (hexdigest demo_env ''sha256'' ''abc'')),
                    (''sha512'', JStr (hexdigest demo_env ''sha512'' ''abc''))])"
    by (simp add: demo_env_def demo_load_def)
  have dirs: "security_fs hashes_dir = Some Dir" "security_fs signatures_dir = Some Dir"
    by (simp_all add: security_eval)
  have hfree: "security_fs (join hashes_dir (basename ''game.rom'' @ ''.json'')) \<noteq> Some Dir"
      "security_fs (join hashes_dir (basename ''game.rom'' @ ''.json'')) \<noteq> Some Denied"
    by (simp_all add: security_eval)
  have sfree: "security_fs (join signatures_dir (basename ''game.rom'' @ ''.sig'')) \<noteq> Some Dir"
      "security_fs (join signatures_dir (basename ''game.rom'' @ ''.sig'')) \<noteq> Some Denied"
    by (simp_all add: security_eval)
  from sign_verify_roundtrip [OF art priv pub sign pair json dirs hfree sfree]
    art priv(2) pub(2) sign(1) pair
  show ?thesis by blast
qed

section \<open>manage\_security.py: concrete runs of the commands\<close>

lemmas stale_eval =
  security_eval hashed_fs_def stale_fs_def demo_load_def extensions_def endswith_def
  algorithms_def

lemmas command_eval =
  main_security_def isfile_def calculate_hashes_def algorithms_def try_except_def
  read_file_def emit_def and_then_Inr and_then_Inl ok_def throw_def from_option_def
  write_file_def dirname_def sign_file_def Let_def security_eval

lemma demo_hash_command:
  "main_security demo_env security_fs CmdHash ''demo.tar.gz'' =
     (0, [Open ''demo.tar.gz'', Open ''demo.tar.gz'',
          Print (HashesSaved ''security/hashes/demo.tar.gz.json'')],
      security_fs(''security/hashes/demo.tar.gz.json'' \<mapsto>
        File ''sha256=sha256:xyz;sha512=sha512:xyz;''))"
  by (simp add: command_eval)

lemma demo_sign_command:
  "main_security demo_env
     (security_fs(''security/hashes/demo.tar.gz.json'' \<mapsto>
        File ''sha256=sha256:xyz;sha512=sha512:xyz;'')) CmdSign ''demo.tar.gz'' =
     (0, [Open ''security/keys/rsa_private.pem'', Open ''demo.tar.gz'',
          Sign ''raw:xyz'' \<lparr>mgf1 = SHA512, salt_length = Salt 64\<rparr> SHA512,
          Print (SignatureSaved ''security/signatures/demo.tar.gz.sig'')],
      security_fs(''security/hashes/demo.tar.gz.json'' \<mapsto>
        File ''sha256=sha256:xyz;sha512=sha512:xyz;'',
        ''security/signatures/demo.tar.gz.sig'' \<mapsto> File ''k1|raw:xyz''))"
  by (simp add: command_eval)

text \<open>
  C3, as the spec states it, fails on its own scenario: \<^verbatim>\<open>demo.tar.gz\<close> is hashed and
  signed, then one byte is appended, so that its sha256 digest differs from the stored
  one; \<^verbatim>\<open>verify_file\<close> still returns \<open>True\<close> and opens no file, because the name ends
  in none of the configured extensions.
\<close>

theorem first_mismatch_counterexample:
  "hexdigest demo_env ''sha256'' ''xyz!'' \<noteq> hexdigest demo_env ''sha256'' ''xyz'' \<and>
   (\<exists>l1 fs1 l2 fs2.
      main_security demo_env security_fs CmdHash ''demo.tar.gz'' = (0, l1, fs1) \<and>
      main_security demo_env fs1 CmdSign ''demo.tar.gz'' = (0, l2, fs2) \<and>
      verify_file demo_env (fs2(''demo.tar.gz'' \<mapsto> File ''xyz!'')) ''demo.tar.gz'' = (True, []))"
proof -
  have skip: "verify_file demo_env f ''demo.tar.gz'' = (True, [])" for f
    by (simp add: verify_file_def try_except_def ok_def extensions_def endswith_def)
  have d: "hexdigest demo_env ''sha256'' ''xyz!'' \<noteq> hexdigest demo_env ''sha256'' ''xyz''"
    by (simp add: demo_env_def)
  from demo_hash_command demo_sign_command skip d show ?thesis
    by blast
qed

text \<open>
  C3, amended. Where the digests are compared at all (in \<^verbatim>\<open>verify_file\<close> for a name that
  ends in a configured extension, in the distribution script's check for every package),
  they are compared in the order sha256, sha512. The stored digest is the entry of the
  JSON dict for \<^verbatim>\<open>verify_file\<close>, and for the distribution script the first token
  (\<^verbatim>\<open>strip().split()[0]\<close>) of the digest file read in text mode. At the first algorithm
  whose stored digest differs from the recomputed one, while the algorithms before it
  match, the check
  prints \<^verbatim>\<open>Hash {algorithm} invalido.\<close> and returns \<open>False\<close>: the events end there, so no
  later algorithm is compared, no key or signature file is opened and the library's
  verify operation is not called. In particular a changed artifact whose sha256 digest no
  longer equals the stored one is reported for sha256.
\<close>

theorem first_mismatch_reported:
  "(list_ex (endswith p) extensions \<and>
    fs (join hashes_dir (basename p @ ''.json'')) = Some (File stored) \<and>
    json_load env stored = Some (JObj saved) \<and>
    fs p = Some (File c) \<and>
    algorithms = pre @ a # post \<and>
    (\<forall>b\<in>set pre. map_of saved b = Some (JStr (hexdigest env b c))) \<and>
    map_of saved a = Some v \<and> v \<noteq> JStr (hexdigest env a c) \<longrightarrow>
    verify_file env fs p =
      (False,
       [Print (VerifyingFile p), Open (join hashes_dir (basename p @ ''.json'')), Open p, Open p,
        Print (HashInvalid a)])) \<and>
   (dfs q = Some (File dc) \<and>
    dist_algorithms = dpre @ da # dpost \<and>
    (\<forall>b\<in>set dpre. \<exists>raw tx. dfs (q @ ''.'' @ b) = Some (File raw) \<and>
        decode env raw = Some tx \<and> first_token tx = ok (str_of (hexdigest env b dc))) \<and>
    dfs (q @ ''.'' @ da) = Some (File dstored) \<and> decode env dstored = Some ddecoded \<and>
    first_token ddecoded = ok t \<and>
    t \<noteq> str_of (hexdigest env da dc) \<longrightarrow>
    verify_one env dfs q =
      (Inr (Return False),
       Print (Verifying (basename q)) #
       concat (map (\<lambda>b. [Open (q @ ''.'' @ b), Open q]) dpre) @
       [Open (q @ ''.'' @ da), Open q, Print (HashInvalid da)]))"
  using verify_file_first_mismatch [of p fs stored env saved c pre a post v]
    verify_one_first_mismatch [of dfs q dc dpre da dpost env dstored ddecoded t]
  by blast

theorem first_mismatch_reported_witness:
  "list_ex (endswith ''game.rom'') extensions \<and>
   stale_fs ''security/hashes/game.rom.json'' = Some (File ''sha256=sha256:abc;sha512=sha512:abc;'') \<and>
   json_load demo_env ''sha256=sha256:abc;sha512=sha512:abc;'' =
     Some (JObj [(''sha256'', JStr ''sha256:abc''), (''sha512'', JStr ''sha512:abc'')]) \<and>
   stale_fs ''game.rom'' = Some (File ''abcd'') \<and>
   JStr ''sha256:abc'' \<noteq> JStr (hexdigest demo_env ''sha256'' ''abcd'') \<and>
   verify_file demo_env stale_fs ''game.rom'' =
     (False,
      [Print (VerifyingFile ''game.rom''), Open ''security/hashes/game.rom.json'',
       Open ''game.rom'', Open ''game.rom'', Print (HashInvalid ''sha256'')]) \<and>
   dist_fs ''package/dist/b.zip'' = Some (File ''BBB!'') \<and>
   dist_fs ''package/dist/b.zip.sha256'' = Some (File (''sha256:BBB b.zip'' @ [newline])) \<and>
   decode demo_env (''sha256:BBB b.zip'' @ [newline]) =
     Some (str_of (''sha256:BBB b.zip'' @ [newline])) \<and>
   first_token (str_of (''sha256:BBB b.zip'' @ [newline])) = ok (str_of ''sha256:BBB'') \<and>
   str_of ''sha256:BBB'' \<noteq> str_of (hexdigest demo_env ''sha256'' ''BBB!'') \<and>
   verify_one demo_env dist_fs ''package/dist/b.zip'' =
     (Inr (Return False),
      [Print (Verifying ''b.zip''), Open ''package/dist/b.zip.sha256'',
       Open ''package/dist/b.zip'', Print (HashInvalid ''sha256'')])"
proof -
  have a1: "list_ex (endswith ''game.rom'') extensions"
    by (simp add: extensions_def endswith_def)
  have a2: "stale_fs (join hashes_dir (basename ''game.rom'' @ ''.json'')) =
      Some (File ''sha256=sha256:abc;sha512=sha512:abc;'')"
    by (simp add: stale_eval)
  have a3: "json_load demo_env ''sha256=sha256:abc;sha512=sha512:abc;'' =
     Some (JObj [(''sha256'', JStr ''sha256:abc''), (''sha512'', JStr ''sha512:abc'')])"
    by (simp add: demo_env_def demo_load_def)
  have a4: "stale_fs ''game.rom'' = Some (File ''abcd'')"
    by (simp add: stale_eval)
  have a5: "algorithms = [] @ ''sha256'' # [''sha512'']"
    by (simp add: algorithms_def)
  have a6: "\<forall>b\<in>set []. map_of [(''sha256'', JStr ''sha256:abc''), (''sha512'', JStr ''sha512:abc'')] b =
      Some (JStr (hexdigest demo_env b ''abcd''))"
    by simp
  have a7: "map_of [(''sha256'', JStr ''sha256:abc''), (''sha512'', JStr ''sha512:abc'')] ''sha256'' =
      Some (JStr ''sha256:abc'')"
    by simp
  have a8: "JStr ''sha256:abc'' \<noteq> JStr (hexdigest demo_env ''sha256'' ''abcd'')"
    by (simp add: demo_env_def)
  have b1: "dist_fs ''package/dist/b.zip'' = Some (File ''BBB!'')"
    by (simp add: dist_fs_def)
  have b2: "dist_algorithms = [] @ ''sha256'' # [''sha512'']"
    by (simp add: dist_algorithms_def)
  have b3: "\<forall>b\<in>set []. \<exists>raw tx. dist_fs (''package/dist/b.zip'' @ ''.'' @ b) = Some (File raw) \<and>
        decode demo_env raw = Some tx \<and>
        first_token tx = ok (str_of (hexdigest demo_env b ''BBB!''))"
    by simp
  have b4: "dist_fs (''package/dist/b.zip'' @ ''.'' @ ''sha256'') =
      Some (File (''sha256:BBB b.zip'' @ [newline]))"
    by (simp add: dist_fs_def)
  have b7: "decode demo_env (''sha256:BBB b.zip'' @ [newline]) =
     Some (str_of (''sha256:BBB b.zip'' @ [newline]))"
    by (simp add: demo_env_def newline_def)
  have b5: "first_token (str_of (''sha256:BBB b.zip'' @ [newline])) = ok (str_of ''sha256:BBB'')"
    by (simp add: first_token_def is_space_def newline_def str_of_simps)
  have b6: "str_of ''sha256:BBB'' \<noteq> str_of (hexdigest demo_env ''sha256'' ''BBB!'')"
    by (simp add: demo_env_def str_of_simps)
  from first_mismatch_reported [where p = "''game.rom''" and fs = stale_fs
      and stored = "''sha256=sha256:abc;sha512=sha512:abc;''" and env = demo_env
      and saved = "[(''sha256'', JStr ''sha256:abc''), (''sha512'', JStr ''sha512:abc'')]"
      and c = "''abcd''" and pre = "[]" and a = "''sha256''" and post = "[''sha512'']"
      and v = "JStr ''sha256:abc''" and dfs = dist_fs and q = "''package/dist/b.zip''"
      and dc = "''BBB!''" and dpre = "[]" and da = "''sha256''" and dpost = "[''sha512'']"
      and dstored = "''sha256:BBB b.zip'' @ [newline]"
      and ddecoded = "str_of (''sha256:BBB b.zip'' @ [newline])" and t = "str_of ''sha256:BBB''"]
    a1 a2 a3 a4 a5 a6 a7 a8 b1 b2 b3 b4 b5 b6 b7
  show ?thesis
    by (simp add: join_def hashes_dir_def basename_def)
qed

lemma stale_verify:
  "verify_file demo_env stale_fs ''game.rom'' =
     (False,
      [Print (VerifyingFile ''game.rom''), Open ''security/hashes/game.rom.json'',
       Open ''game.rom'', Open ''game.rom'', Print (HashInvalid ''sha256'')])"
  by (simp add: verify_file_def check_hashes_def check_signatures_def verify_hashes_def
        exists_def py_in_def py_getitem_def dict_getitem_def fields.simps print_then_eq
        calculate_hashes_def try_except_def read_file_def emit_def and_then_Inr and_then_Inl
        ok_def throw_def from_option_def Let_def stale_eval)

text \<open>
  C4, as the spec states it, fails: with the signature file absent and a stored digest
  that no longer matches, \<^verbatim>\<open>verify_file\<close> recomputes the digests (the artifact is opened
  twice) and reports the sha256 mismatch, not the missing signature.
\<close>

theorem missing_metadata_counterexample:
  "\<not> exists stale_fs ''security/signatures/game.rom.sig'' \<and>
   verify_file demo_env stale_fs ''game.rom'' =
     (False,
      [Print (VerifyingFile ''game.rom''), Open ''security/hashes/game.rom.json'',
       Open ''game.rom'', Open ''game.rom'', Print (HashInvalid ''sha256'')])"
  by (simp add: stale_verify) (simp add: exists_def stale_eval)

text \<open>
  C4, amended. For a name that ends in a configured extension: when the stored hash file
  is absent, \<^verbatim>\<open>verify_file\<close> prints \<^verbatim>\<open>Arquivo de hashes nao encontrado.\<close> and returns
  \<open>False\<close> without opening the artifact, comparing a digest or checking a signature. When
  the signature file is absent, the digests are recomputed and compared first; if they
  all match and the public key loads, \<^verbatim>\<open>verify_file\<close> prints
  \<^verbatim>\<open>Arquivo de assinatura nao encontrado.\<close> and returns \<open>False\<close> without calling the
  library's verify operation.
\<close>

theorem missing_metadata_reported:
  "(list_ex (endswith p) extensions \<and>
    \<not> exists fs (join hashes_dir (basename p @ ''.json'')) \<longrightarrow>
    verify_file env fs p = (False, [Print (VerifyingFile p), Print HashFileNotFound])) \<and>
   (list_ex (endswith p) extensions \<and>
    fs (join hashes_dir (basename p @ ''.json'')) = Some (File text) \<and>
    json_load env text = Some (JObj saved) \<and>
    fs p = Some (File c) \<and>
    (\<forall>b\<in>set algorithms. map_of saved b = Some (JStr (hexdigest env b c))) \<and>
    fs (join keys_dir rsa_public) = Some (File pem) \<and>
    load_pem_public_key env pem = Some pk \<and>
    \<not> exists fs (join signatures_dir (basename p @ ''.sig'')) \<longrightarrow>
    verify_file env fs p =
      (False,
       [Print (VerifyingFile p), Open (join hashes_dir (basename p @ ''.json'')), Open p, Open p,
        Open (join keys_dir rsa_public), Print SignatureFileNotFound]))"
proof -
  have "verify_file env fs p =
      (False,
       [Print (VerifyingFile p), Open (join hashes_dir (basename p @ ''.json'')), Open p, Open p,
        Open (join keys_dir rsa_public), Print SignatureFileNotFound])"
    if l: "list_ex (endswith p) extensions"
      and h: "fs (join hashes_dir (basename p @ ''.json'')) = Some (File text)"
        "json_load env text = Some (JObj saved)" "fs p = Some (File c)"
        "\<forall>b\<in>set algorithms. map_of saved b = Some (JStr (hexdigest env b c))"
      and k: "fs (join keys_dir rsa_public) = Some (File pem)"
        "load_pem_public_key env pem = Some pk"
      and s: "\<not> exists fs (join signatures_dir (basename p @ ''.sig''))"
    using verify_file_no_sig_file [OF l verify_hashes_match [OF h] k s] by simp
  then show ?thesis
    using verify_file_no_hash_file [of p fs env] by blast
qed

theorem missing_metadata_reported_witness:
  "list_ex (endswith ''game.rom'') extensions \<and>
   \<not> exists security_fs ''security/hashes/game.rom.json'' \<and>
   verify_file demo_env security_fs ''game.rom'' =
     (False, [Print (VerifyingFile ''game.rom''), Print HashFileNotFound]) \<and>
   hashed_fs ''security/hashes/game.rom.json'' =
     Some (File ''sha256=sha256:abc;sha512=sha512:abc;'') \<and>
   hashed_fs ''game.rom'' = Some (File ''abc'') \<and>
   \<not> exists hashed_fs ''security/signatures/game.rom.sig'' \<and>
   verify_file demo_env hashed_fs ''game.rom'' =
     (False,
      [Print (VerifyingFile ''game.rom''), Open ''security/hashes/game.rom.json'',
       Open ''game.rom'', Open ''game.rom'', Open ''security/keys/rsa_public.pem'',
       Print SignatureFileNotFound])"
proof -
  have a1: "list_ex (endswith ''game.rom'') extensions"
    by (simp add: extensions_def endswith_def)
  have a2: "\<not> exists security_fs (join hashes_dir (basename ''game.rom'' @ ''.json''))"
    by (simp add: exists_def stale_eval)
  have b2: "hashed_fs (join hashes_dir (basename ''game.rom'' @ ''.json'')) =
     Some (File ''sha256=sha256:abc;sha512=sha512:abc;'')"
    by (simp add: stale_eval)
  have b3: "json_load demo_env ''sha256=sha256:abc;sha512=sha512:abc;'' =
     Some (JObj [(''sha256'', JStr ''sha256:abc''), (''sha512'', JStr ''sha512:abc'')])"
    by (simp add: demo_env_def demo_load_def)
  have b4: "hashed_fs ''game.rom'' = Some (File ''abc'')"
    by (simp add: stale_eval)
  have b5: "\<forall>b\<in>set algorithms.
      map_of [(''sha256'', JStr ''sha256:abc''), (''sha512'', JStr ''sha512:abc'')] b =
      Some (JStr (hexdigest demo_env b ''abc''))"
    by (simp add: algorithms_def demo_env_def)
  have b6: "hashed_fs (join keys_dir rsa_public) = Some (File ''PUBLIC'')"
    "load_pem_public_key demo_env ''PUBLIC'' = Some ''k1''"
    by (simp_all add: stale_eval)
  have b7: "\<not> exists hashed_fs (join signatures_dir (basename ''game.rom'' @ ''.sig''))"
    by (simp add: exists_def stale_eval)
  from missing_metadata_reported [of "''game.rom''" security_fs demo_env]
    missing_metadata_reported [of "''game.rom''" hashed_fs demo_env
      "''sha256=sha256:abc;sha512=sha512:abc;''"
      "[(''sha256'', JStr ''sha256:abc''), (''sha512'', JStr ''sha512:abc'')]" "''abc''"
      "''PUBLIC''" "''k1''"]
    a1 a2 b2 b3 b4 b5 b6 b7
  show ?thesis
    by (simp add: join_def hashes_dir_def signatures_dir_def keys_dir_def rsa_public_def
          basename_def)
qed


end
